theory Spec2Isabelle
  imports
    Main
    "HOL-Library.Word"
    "HOL-Library.AList"
    "HOL-Library.Char_ord"
    "HOL-Library.List_Lexorder"
    "HOL-Library.Multiset"
    "HOL-Library.Sublist"
begin

section \<open>The last-value accumulator of the Prometheus exporter\<close>

text \<open>
  A shallow embedding of \<^verbatim>\<open>exporter/prometheusexporter/accumulator.go\<close>.
  The accumulator keeps, for every timeseries signature, the metric holding the last
  accepted datapoint. Mutation is explicit: every function takes the accumulator and
  returns the new one, together with the incoming metric as the call leaves it. A Go
  panic is the left summand of the result. The logger only writes messages and is left
  out.
\<close>

subsection \<open>Time\<close>

text \<open>
  A \<^verbatim>\<open>time.Time\<close> is the number of nanoseconds since the epoch, a
  \<^verbatim>\<open>time.Duration\<close> a number of nanoseconds. A \<^verbatim>\<open>pdata.Timestamp\<close> is
  a \<^verbatim>\<open>uint64\<close>, which \<^verbatim>\<open>AsTime\<close> reads as \<^verbatim>\<open>time.Unix(0, int64(ts))\<close>.
\<close>

type_synonym Time = int
type_synonym Duration = int

definition AsTime :: "64 word \<Rightarrow> Time" where
  "AsTime ts = sint ts"

definition Before :: "Time \<Rightarrow> Time \<Rightarrow> bool" where
  "Before t u = (t < u)"

definition After :: "Time \<Rightarrow> Time \<Rightarrow> bool" where
  "After t u = (u < t)"

definition Add :: "Time \<Rightarrow> Duration \<Rightarrow> Time" where
  "Add t d = t + d"

subsection \<open>The pdata model\<close>

text \<open>
  Modelled from the spec: the declarations of the pdata package (\<^verbatim>\<open>model/pdata\<close>)
  are not among the sources. A metric has a name, a description, a unit and exactly one
  kind with its datapoints; a datapoint has a label set, a timestamp and a payload that
  depends on the kind; a sum has a monotonic flag and a temporality, a histogram a
  temporality. The accessors below are the ones the accumulator calls.

  An attribute map is a slice of key/value entries. The type \<open>'v\<close> is the type of
  attribute values and \<open>'p\<close> stands for the fields of a datapoint that the accumulator
  only copies (the value, the start timestamp, buckets, quantiles).
\<close>

type_synonym 'v AttributeMap = "(string \<times> 'v) list"

record ('v, 'p) DataPoint =
  Attributes :: "'v AttributeMap"
  Timestamp :: "64 word"
  Payload :: 'p

datatype AggregationTemporality =
    AggregationTemporalityUnspecified
  | AggregationTemporalityDelta
  | AggregationTemporalityCumulative

datatype MetricDataType =
    MetricDataTypeNone
  | MetricDataTypeGauge
  | MetricDataTypeSum
  | MetricDataTypeHistogram
  | MetricDataTypeSummary

text \<open>
  The data of a metric is a tagged union: a gauge and a summary hold datapoints, a sum
  holds its temporality, its monotonic flag and datapoints, a histogram its temporality
  and datapoints.
\<close>

datatype ('v, 'p) MetricData =
    DataNone
  | DataGauge "('v, 'p) DataPoint list"
  | DataSum AggregationTemporality bool "('v, 'p) DataPoint list"
  | DataHistogram AggregationTemporality "('v, 'p) DataPoint list"
  | DataSummary "('v, 'p) DataPoint list"

record ('v, 'p) Metric =
  Name :: string
  Description :: string
  Unit :: string
  Data :: "('v, 'p) MetricData"

record InstrumentationLibrary =
  LibraryName :: string
  LibraryVersion :: string

record ('v, 'p) InstrumentationLibraryMetrics =
  Library :: InstrumentationLibrary
  Metrics :: "('v, 'p) Metric list"

record ('v, 'p) ResourceMetrics =
  LibraryMetrics :: "('v, 'p) InstrumentationLibraryMetrics list"

definition DataType :: "('v, 'p) Metric \<Rightarrow> MetricDataType" where
  "DataType m =
     (case Data m of
        DataNone \<Rightarrow> MetricDataTypeNone
      | DataGauge _ \<Rightarrow> MetricDataTypeGauge
      | DataSum _ _ _ \<Rightarrow> MetricDataTypeSum
      | DataHistogram _ _ \<Rightarrow> MetricDataTypeHistogram
      | DataSummary _ \<Rightarrow> MetricDataTypeSummary)"

fun DataTypeString :: "MetricDataType \<Rightarrow> string" where
  "DataTypeString MetricDataTypeNone = ''None''"
| "DataTypeString MetricDataTypeGauge = ''Gauge''"
| "DataTypeString MetricDataTypeSum = ''Sum''"
| "DataTypeString MetricDataTypeHistogram = ''Histogram''"
| "DataTypeString MetricDataTypeSummary = ''Summary''"

text \<open>
  \<^verbatim>\<open>SetDataType\<close> installs the empty data of the given type with zero-valued
  fields: no datapoints, the monotonic flag off, and the temporality unspecified, which is
  the zero value of the enumeration.
\<close>

fun SetDataType :: "MetricDataType \<Rightarrow> ('v, 'p) Metric \<Rightarrow> ('v, 'p) Metric" where
  "SetDataType MetricDataTypeNone m = m\<lparr>Data := DataNone\<rparr>"
| "SetDataType MetricDataTypeGauge m = m\<lparr>Data := DataGauge []\<rparr>"
| "SetDataType MetricDataTypeSum m =
     m\<lparr>Data := DataSum AggregationTemporalityUnspecified False []\<rparr>"
| "SetDataType MetricDataTypeHistogram m =
     m\<lparr>Data := DataHistogram AggregationTemporalityUnspecified []\<rparr>"
| "SetDataType MetricDataTypeSummary m = m\<lparr>Data := DataSummary []\<rparr>"

definition NewMetric :: "('v, 'p) Metric" where
  "NewMetric = \<lparr>Name = [], Description = [], Unit = [], Data = DataNone\<rparr>"

text \<open>
  Reading the data of a metric as a type it does not have, and reading a slice out of
  range, panic.
\<close>

datatype error = PanicWrongDataType | PanicIndexOutOfRange

definition At :: "'a list \<Rightarrow> nat \<Rightarrow> error + 'a" where
  "At xs i = (if i < length xs then Inr (xs ! i) else Inl PanicIndexOutOfRange)"

definition DataPoints :: "('v, 'p) Metric \<Rightarrow> ('v, 'p) DataPoint list" where
  "DataPoints m =
     (case Data m of
        DataNone \<Rightarrow> []
      | DataGauge dps \<Rightarrow> dps
      | DataSum _ _ dps \<Rightarrow> dps
      | DataHistogram _ dps \<Rightarrow> dps
      | DataSummary dps \<Rightarrow> dps)"

text \<open>
  \<^verbatim>\<open>m.X().DataPoints().At(0).Timestamp().AsTime()\<close> for \<open>X\<close> the data type
  \<open>ty\<close>: the time of the first datapoint of a metric of that type.
\<close>

definition firstTime :: "MetricDataType \<Rightarrow> ('v, 'p) Metric \<Rightarrow> error + Time" where
  "firstTime ty m =
     (if DataType m \<noteq> ty then Inl PanicWrongDataType
      else case At (DataPoints m) 0 of
             Inl e \<Rightarrow> Inl e
           | Inr dp \<Rightarrow> Inr (AsTime (Timestamp dp)))"

text \<open>
  \<^verbatim>\<open>ip.CopyTo(m.X().DataPoints().AppendEmpty())\<close>: a copy of the datapoint is
  appended to the datapoints of \<open>m\<close>, whose data must have the type \<open>ty\<close>.
\<close>

definition appendCopy ::
  "MetricDataType \<Rightarrow> ('v, 'p) DataPoint \<Rightarrow> ('v, 'p) Metric \<Rightarrow> error + ('v, 'p) Metric" where
  "appendCopy ty ip m =
     (if DataType m \<noteq> ty then Inl PanicWrongDataType
      else case Data m of
             DataNone \<Rightarrow> Inl PanicWrongDataType
           | DataGauge dps \<Rightarrow> Inr (m\<lparr>Data := DataGauge (dps @ [ip])\<rparr>)
           | DataSum t im dps \<Rightarrow> Inr (m\<lparr>Data := DataSum t im (dps @ [ip])\<rparr>)
           | DataHistogram t dps \<Rightarrow> Inr (m\<lparr>Data := DataHistogram t (dps @ [ip])\<rparr>)
           | DataSummary dps \<Rightarrow> Inr (m\<lparr>Data := DataSummary (dps @ [ip])\<rparr>))"

subsection \<open>The accumulator\<close>

record ('v, 'p) accumulatedValue =
  val :: "('v, 'p) Metric"
  updated :: Time
  instrumentationLibrary :: InstrumentationLibrary

text \<open>
  The \<^verbatim>\<open>sync.Map\<close> of registered metrics is an association list from signatures
  to accumulated values: \<^verbatim>\<open>Load\<close> is the lookup, \<^verbatim>\<open>Store\<close> the update and
  \<^verbatim>\<open>Delete\<close> the removal of a key. The order of the list is the order in which
  \<^verbatim>\<open>Range\<close> visits the entries; Go leaves that order open, and no theorem below
  depends on it.
\<close>

record ('v, 'p) lastValueAccumulator =
  registeredMetrics :: "(string \<times> ('v, 'p) accumulatedValue) list"
  metricExpiration :: Duration

definition newAccumulator :: "Duration \<Rightarrow> ('v, 'p) lastValueAccumulator" where
  "newAccumulator expiration = \<lparr>registeredMetrics = [], metricExpiration = expiration\<rparr>"

definition Load ::
  "('v, 'p) lastValueAccumulator \<Rightarrow> string \<Rightarrow> ('v, 'p) accumulatedValue option" where
  "Load a key = map_of (registeredMetrics a) key"

definition Store ::
  "string \<Rightarrow> ('v, 'p) accumulatedValue \<Rightarrow> ('v, 'p) lastValueAccumulator
     \<Rightarrow> ('v, 'p) lastValueAccumulator" where
  "Store key v a = a\<lparr>registeredMetrics := AList.update key v (registeredMetrics a)\<rparr>"

definition Delete ::
  "string \<Rightarrow> ('v, 'p) lastValueAccumulator \<Rightarrow> ('v, 'p) lastValueAccumulator" where
  "Delete key a = a\<lparr>registeredMetrics := AList.delete key (registeredMetrics a)\<rparr>"

subsection \<open>Signatures\<close>

text \<open>
  Modelled from the spec: \<^verbatim>\<open>AttributeMap.Sort\<close> of the pdata package is not among
  the sources. The signature takes the label pairs "in sorted key order"; the call
  \<^verbatim>\<open>attributes.Sort()\<close> is made on the attribute map of the incoming datapoint
  itself, and pdata sorts the entries of that map in place, stably and by key, and hands
  the same map back. So the sorted map is also what the datapoint holds afterwards.
\<close>

definition Sort :: "'v AttributeMap \<Rightarrow> 'v AttributeMap" where
  "Sort am = sort_key fst am"

text \<open>
  \<^verbatim>\<open>pdata.AttributeValueToString\<close> is not among the sources either; it is the
  parameter \<open>toStr\<close> of the signature and of everything that calls it.

  The result is the attribute map as the call leaves it, and the signature.
\<close>

definition timeseriesSignature ::
  "('v \<Rightarrow> string) \<Rightarrow> string \<Rightarrow> ('v, 'p) Metric \<Rightarrow> 'v AttributeMap
     \<Rightarrow> 'v AttributeMap \<times> string" where
  "timeseriesSignature toStr ilmName metric attributes =
     (let b = DataTypeString (DataType metric);
          b = b @ (''*'' @ ilmName);
          b = b @ (''*'' @ Name metric);
          sorted = Sort attributes;
          b = foldl (\<lambda>b (k, v). b @ (''*'' @ k @ ''*'' @ toStr v)) b sorted
      in (sorted, b))"

definition createMetric :: "('v, 'p) Metric \<Rightarrow> ('v, 'p) Metric" where
  "createMetric metric =
     (let m = NewMetric;
          m = m\<lparr>Name := Name metric\<rparr>;
          m = m\<lparr>Description := Description metric\<rparr>;
          m = m\<lparr>Unit := Unit metric\<rparr>;
          m = SetDataType (DataType metric) m
      in m)"

subsection \<open>The merge policies\<close>

definition andThen :: "error + 'a \<Rightarrow> ('a \<Rightarrow> error + 'b) \<Rightarrow> error + 'b" where
  "andThen r f = (case r of Inl e \<Rightarrow> Inl e | Inr x \<Rightarrow> f x)"

definition IsMonotonic :: "('v, 'p) Metric \<Rightarrow> error + bool" where
  "IsMonotonic m = (case Data m of DataSum _ im _ \<Rightarrow> Inr im | _ \<Rightarrow> Inl PanicWrongDataType)"

definition SetIsMonotonic :: "bool \<Rightarrow> ('v, 'p) Metric \<Rightarrow> error + ('v, 'p) Metric" where
  "SetIsMonotonic im m =
     (case Data m of
        DataSum t _ dps \<Rightarrow> Inr (m\<lparr>Data := DataSum t im dps\<rparr>)
      | _ \<Rightarrow> Inl PanicWrongDataType)"

definition SetSumAggregationTemporality ::
  "AggregationTemporality \<Rightarrow> ('v, 'p) Metric \<Rightarrow> error + ('v, 'p) Metric" where
  "SetSumAggregationTemporality t m =
     (case Data m of
        DataSum _ im dps \<Rightarrow> Inr (m\<lparr>Data := DataSum t im dps\<rparr>)
      | _ \<Rightarrow> Inl PanicWrongDataType)"

definition SetHistogramAggregationTemporality ::
  "AggregationTemporality \<Rightarrow> ('v, 'p) Metric \<Rightarrow> error + ('v, 'p) Metric" where
  "SetHistogramAggregationTemporality t m =
     (case Data m of
        DataHistogram _ dps \<Rightarrow> Inr (m\<lparr>Data := DataHistogram t dps\<rparr>)
      | _ \<Rightarrow> Inl PanicWrongDataType)"

text \<open>
  The body of each loop over the datapoints of a metric is a function of its own. It
  returns what the iteration adds to \<open>n\<close>, the accumulator, and the datapoint as the
  iteration leaves it in the incoming metric.
\<close>

type_synonym ('v, 'p) step =
  "error + (nat \<times> ('v, 'p) lastValueAccumulator \<times> ('v, 'p) DataPoint)"

definition accumulateSummaryPoint ::
  "('v \<Rightarrow> string) \<Rightarrow> ('v, 'p) Metric \<Rightarrow> InstrumentationLibrary \<Rightarrow> Time
     \<Rightarrow> ('v, 'p) DataPoint \<Rightarrow> ('v, 'p) lastValueAccumulator \<Rightarrow> ('v, 'p) step" where
  "accumulateSummaryPoint toStr metric il now ip0 a =
     (let (attributes, signature) =
            timeseriesSignature toStr (LibraryName il) metric (Attributes ip0);
          ip = ip0\<lparr>Attributes := attributes\<rparr>
      in andThen
           (case Load a signature of
              None \<Rightarrow> Inr False
            | Some v \<Rightarrow>
                andThen (firstTime MetricDataTypeSummary (val v))
                  (\<lambda>t. Inr (Before (AsTime (Timestamp ip)) t)))
           (\<lambda>stalePoint.
              if stalePoint then Inr (0, a, ip)
              else andThen (appendCopy MetricDataTypeSummary ip (createMetric metric))
                (\<lambda>mm. Inr (1,
                   Store signature
                     \<lparr>val = mm, updated = now, instrumentationLibrary = il\<rparr> a,
                   ip))))"

definition accumulateGaugePoint ::
  "('v \<Rightarrow> string) \<Rightarrow> ('v, 'p) Metric \<Rightarrow> InstrumentationLibrary \<Rightarrow> Time
     \<Rightarrow> ('v, 'p) DataPoint \<Rightarrow> ('v, 'p) lastValueAccumulator \<Rightarrow> ('v, 'p) step" where
  "accumulateGaugePoint toStr metric il now ip0 a =
     (let (attributes, signature) =
            timeseriesSignature toStr (LibraryName il) metric (Attributes ip0);
          ip = ip0\<lparr>Attributes := attributes\<rparr>
      in case Load a signature of
           None \<Rightarrow>
             andThen (appendCopy MetricDataTypeGauge ip (createMetric metric))
               (\<lambda>m. Inr (1,
                  Store signature
                    \<lparr>val = m, updated = now, instrumentationLibrary = il\<rparr> a,
                  ip))
         | Some mv \<Rightarrow>
             andThen (firstTime MetricDataTypeGauge (val mv))
               (\<lambda>t. if Before (AsTime (Timestamp ip)) t then Inr (0, a, ip)
                    else andThen (appendCopy MetricDataTypeGauge ip (createMetric metric))
                      (\<lambda>m. Inr (1,
                         Store signature
                           \<lparr>val = m, updated = now, instrumentationLibrary = il\<rparr> a,
                         ip))))"

definition accumulateSumPoint ::
  "('v \<Rightarrow> string) \<Rightarrow> ('v, 'p) Metric \<Rightarrow> InstrumentationLibrary \<Rightarrow> Time
     \<Rightarrow> ('v, 'p) DataPoint \<Rightarrow> ('v, 'p) lastValueAccumulator \<Rightarrow> ('v, 'p) step" where
  "accumulateSumPoint toStr metric il now ip0 a =
     (let (attributes, signature) =
            timeseriesSignature toStr (LibraryName il) metric (Attributes ip0);
          ip = ip0\<lparr>Attributes := attributes\<rparr>
      in case Load a signature of
           None \<Rightarrow>
             andThen (IsMonotonic metric) (\<lambda>im.
             andThen (SetIsMonotonic im (createMetric metric)) (\<lambda>m.
             andThen (SetSumAggregationTemporality AggregationTemporalityCumulative m) (\<lambda>m.
             andThen (appendCopy MetricDataTypeSum ip m) (\<lambda>m.
               Inr (1,
                 Store signature
                   \<lparr>val = m, updated = now, instrumentationLibrary = il\<rparr> a,
                 ip)))))
         | Some mv \<Rightarrow>
             andThen (firstTime MetricDataTypeSum (val mv))
               (\<lambda>t. if Before (AsTime (Timestamp ip)) t then Inr (0, a, ip)
                    else
                      andThen (IsMonotonic metric) (\<lambda>im.
                      andThen (SetIsMonotonic im (createMetric metric)) (\<lambda>m.
                      andThen
                        (SetSumAggregationTemporality AggregationTemporalityCumulative m)
                        (\<lambda>m.
                      andThen (appendCopy MetricDataTypeSum ip m) (\<lambda>m.
                        Inr (1,
                          Store signature
                            \<lparr>val = m, updated = now, instrumentationLibrary = il\<rparr> a,
                          ip)))))))"

definition accumulateDoubleHistogramPoint ::
  "('v \<Rightarrow> string) \<Rightarrow> ('v, 'p) Metric \<Rightarrow> InstrumentationLibrary \<Rightarrow> Time
     \<Rightarrow> ('v, 'p) DataPoint \<Rightarrow> ('v, 'p) lastValueAccumulator \<Rightarrow> ('v, 'p) step" where
  "accumulateDoubleHistogramPoint toStr metric il now ip0 a =
     (let (attributes, signature) =
            timeseriesSignature toStr (LibraryName il) metric (Attributes ip0);
          ip = ip0\<lparr>Attributes := attributes\<rparr>
      in case Load a signature of
           None \<Rightarrow>
             andThen (appendCopy MetricDataTypeHistogram ip (createMetric metric))
               (\<lambda>m. Inr (1,
                  Store signature
                    \<lparr>val = m, updated = now, instrumentationLibrary = il\<rparr> a,
                  ip))
         | Some mv \<Rightarrow>
             andThen (firstTime MetricDataTypeHistogram (val mv))
               (\<lambda>t. if Before (AsTime (Timestamp ip)) t then Inr (0, a, ip)
                    else
                      andThen (appendCopy MetricDataTypeHistogram ip (createMetric metric))
                        (\<lambda>m.
                      andThen
                        (SetHistogramAggregationTemporality
                           AggregationTemporalityCumulative m)
                        (\<lambda>m.
                        Inr (1,
                          Store signature
                            \<lparr>val = m, updated = now, instrumentationLibrary = il\<rparr> a,
                          ip)))))"

text \<open>
  The loop \<^verbatim>\<open>for i := 0; i < dps.Len(); i++\<close> over the datapoints, with the
  running count \<open>n\<close>. It stops at the first panic.
\<close>

fun accumulatePoints ::
  "(('v, 'p) DataPoint \<Rightarrow> ('v, 'p) lastValueAccumulator \<Rightarrow> ('v, 'p) step)
     \<Rightarrow> ('v, 'p) DataPoint list \<Rightarrow> nat \<Rightarrow> ('v, 'p) lastValueAccumulator
     \<Rightarrow> error + (nat \<times> ('v, 'p) lastValueAccumulator \<times> ('v, 'p) DataPoint list)" where
  "accumulatePoints body [] n a = Inr (n, a, [])"
| "accumulatePoints body (ip # dps) n a =
     (case body ip a of
        Inl e \<Rightarrow> Inl e
      | Inr (k, a', ip') \<Rightarrow>
          (case accumulatePoints body dps (n + k) a' of
             Inl e \<Rightarrow> Inl e
           | Inr (n', a'', dps') \<Rightarrow> Inr (n', a'', ip' # dps')))"

type_synonym ('v, 'p) result =
  "error + (nat \<times> ('v, 'p) lastValueAccumulator \<times> ('v, 'p) Metric)"

definition accumulateSummary ::
  "('v \<Rightarrow> string) \<Rightarrow> ('v, 'p) Metric \<Rightarrow> InstrumentationLibrary \<Rightarrow> Time
     \<Rightarrow> ('v, 'p) lastValueAccumulator \<Rightarrow> ('v, 'p) result" where
  "accumulateSummary toStr metric il now a =
     (case Data metric of
        DataSummary dps \<Rightarrow>
          andThen (accumulatePoints (accumulateSummaryPoint toStr metric il now) dps 0 a)
            (\<lambda>(n, a', dps'). Inr (n, a', metric\<lparr>Data := DataSummary dps'\<rparr>))
      | _ \<Rightarrow> Inl PanicWrongDataType)"

definition accumulateGauge ::
  "('v \<Rightarrow> string) \<Rightarrow> ('v, 'p) Metric \<Rightarrow> InstrumentationLibrary \<Rightarrow> Time
     \<Rightarrow> ('v, 'p) lastValueAccumulator \<Rightarrow> ('v, 'p) result" where
  "accumulateGauge toStr metric il now a =
     (case Data metric of
        DataGauge dps \<Rightarrow>
          andThen (accumulatePoints (accumulateGaugePoint toStr metric il now) dps 0 a)
            (\<lambda>(n, a', dps'). Inr (n, a', metric\<lparr>Data := DataGauge dps'\<rparr>))
      | _ \<Rightarrow> Inl PanicWrongDataType)"

definition accumulateSum ::
  "('v \<Rightarrow> string) \<Rightarrow> ('v, 'p) Metric \<Rightarrow> InstrumentationLibrary \<Rightarrow> Time
     \<Rightarrow> ('v, 'p) lastValueAccumulator \<Rightarrow> ('v, 'p) result" where
  "accumulateSum toStr metric il now a =
     (case Data metric of
        DataSum t im dps \<Rightarrow>
          if t \<noteq> AggregationTemporalityCumulative then Inr (0, a, metric)
          else
            andThen (accumulatePoints (accumulateSumPoint toStr metric il now) dps 0 a)
              (\<lambda>(n, a', dps'). Inr (n, a', metric\<lparr>Data := DataSum t im dps'\<rparr>))
      | _ \<Rightarrow> Inl PanicWrongDataType)"

definition accumulateDoubleHistogram ::
  "('v \<Rightarrow> string) \<Rightarrow> ('v, 'p) Metric \<Rightarrow> InstrumentationLibrary \<Rightarrow> Time
     \<Rightarrow> ('v, 'p) lastValueAccumulator \<Rightarrow> ('v, 'p) result" where
  "accumulateDoubleHistogram toStr metric il now a =
     (case Data metric of
        DataHistogram t dps \<Rightarrow>
          if t \<noteq> AggregationTemporalityCumulative then Inr (0, a, metric)
          else
            andThen
              (accumulatePoints (accumulateDoubleHistogramPoint toStr metric il now) dps 0 a)
              (\<lambda>(n, a', dps'). Inr (n, a', metric\<lparr>Data := DataHistogram t dps'\<rparr>))
      | _ \<Rightarrow> Inl PanicWrongDataType)"

subsection \<open>Accumulate and Collect\<close>

definition addMetric ::
  "('v \<Rightarrow> string) \<Rightarrow> ('v, 'p) Metric \<Rightarrow> InstrumentationLibrary \<Rightarrow> Time
     \<Rightarrow> ('v, 'p) lastValueAccumulator \<Rightarrow> ('v, 'p) result" where
  "addMetric toStr metric il now a =
     (case DataType metric of
        MetricDataTypeGauge \<Rightarrow> accumulateGauge toStr metric il now a
      | MetricDataTypeSum \<Rightarrow> accumulateSum toStr metric il now a
      | MetricDataTypeHistogram \<Rightarrow> accumulateDoubleHistogram toStr metric il now a
      | MetricDataTypeSummary \<Rightarrow> accumulateSummary toStr metric il now a
      | _ \<Rightarrow> Inr (0, a, metric))"

text \<open>The inner loop of \<^verbatim>\<open>Accumulate\<close>, over the metrics of one library.\<close>

fun addMetrics ::
  "('v \<Rightarrow> string) \<Rightarrow> InstrumentationLibrary \<Rightarrow> Time \<Rightarrow> ('v, 'p) Metric list \<Rightarrow> nat
     \<Rightarrow> ('v, 'p) lastValueAccumulator
     \<Rightarrow> error + (nat \<times> ('v, 'p) lastValueAccumulator \<times> ('v, 'p) Metric list)" where
  "addMetrics toStr il now [] n a = Inr (n, a, [])"
| "addMetrics toStr il now (metric # metrics) n a =
     (case addMetric toStr metric il now a of
        Inl e \<Rightarrow> Inl e
      | Inr (k, a', metric') \<Rightarrow>
          (case addMetrics toStr il now metrics (n + k) a' of
             Inl e \<Rightarrow> Inl e
           | Inr (n', a'', metrics') \<Rightarrow> Inr (n', a'', metric' # metrics')))"

text \<open>The outer loop, over the libraries of the batch.\<close>

fun addLibraries ::
  "('v \<Rightarrow> string) \<Rightarrow> Time \<Rightarrow> ('v, 'p) InstrumentationLibraryMetrics list \<Rightarrow> nat
     \<Rightarrow> ('v, 'p) lastValueAccumulator
     \<Rightarrow> error + (nat \<times> ('v, 'p) lastValueAccumulator
                   \<times> ('v, 'p) InstrumentationLibraryMetrics list)" where
  "addLibraries toStr now [] n a = Inr (n, a, [])"
| "addLibraries toStr now (ilm # ilms) n a =
     (case addMetrics toStr (Library ilm) now (Metrics ilm) n a of
        Inl e \<Rightarrow> Inl e
      | Inr (n', a', metrics') \<Rightarrow>
          (case addLibraries toStr now ilms n' a' of
             Inl e \<Rightarrow> Inl e
           | Inr (n'', a'', ilms') \<Rightarrow> Inr (n'', a'', ilm\<lparr>Metrics := metrics'\<rparr> # ilms')))"

text \<open>
  \<^verbatim>\<open>Accumulate\<close>: the time \<open>now\<close> is what \<^verbatim>\<open>time.Now()\<close> returns at the
  start of the call. The result is the count \<open>n\<close>, the accumulator and the batch as
  the call leaves it.
\<close>

definition Accumulate ::
  "('v \<Rightarrow> string) \<Rightarrow> Time \<Rightarrow> ('v, 'p) ResourceMetrics \<Rightarrow> ('v, 'p) lastValueAccumulator
     \<Rightarrow> error + (nat \<times> ('v, 'p) lastValueAccumulator \<times> ('v, 'p) ResourceMetrics)" where
  "Accumulate toStr now rm a =
     andThen (addLibraries toStr now (LibraryMetrics rm) 0 a)
       (\<lambda>(n, a', ilms'). Inr (n, a', rm\<lparr>LibraryMetrics := ilms'\<rparr>))"

text \<open>
  The callback of \<^verbatim>\<open>Range\<close> in \<^verbatim>\<open>Collect\<close>, run over the entries of the
  map: an expired entry is deleted, the metric of any other is appended to \<open>res\<close>.
\<close>

fun collectRange ::
  "Time \<Rightarrow> (string \<times> ('v, 'p) accumulatedValue) list \<Rightarrow> ('v, 'p) lastValueAccumulator
     \<Rightarrow> ('v, 'p) Metric list \<Rightarrow> ('v, 'p) Metric list \<times> ('v, 'p) lastValueAccumulator" where
  "collectRange expirationTime [] a res = (res, a)"
| "collectRange expirationTime ((key, v) # entries) a res =
     (if After expirationTime (updated v)
      then collectRange expirationTime entries (Delete key a) res
      else collectRange expirationTime entries a (res @ [val v]))"

text \<open>\<^verbatim>\<open>Collect\<close>, with \<open>now\<close> the time that \<^verbatim>\<open>time.Now()\<close> returns.\<close>

definition Collect ::
  "Time \<Rightarrow> ('v, 'p) lastValueAccumulator
     \<Rightarrow> ('v, 'p) Metric list \<times> ('v, 'p) lastValueAccumulator" where
  "Collect now a =
     (let expirationTime = Add now (- metricExpiration a)
      in collectRange expirationTime (registeredMetrics a) a [])"

subsection \<open>The invariant of the store\<close>

text \<open>
  Every entry holds a metric of one of the four supported types with exactly one
  datapoint, under a key that starts with the name of that type and the delimiter; and
  no key occurs twice.
\<close>

definition entryInv :: "string \<times> ('v, 'p) accumulatedValue \<Rightarrow> bool" where
  "entryInv e =
     (DataType (val (snd e)) \<noteq> MetricDataTypeNone
      \<and> length (DataPoints (val (snd e))) = 1
      \<and> prefix (DataTypeString (DataType (val (snd e))) @ ''*'') (fst e))"

definition storeInv :: "('v, 'p) lastValueAccumulator \<Rightarrow> bool" where
  "storeInv a =
     (distinct (map fst (registeredMetrics a)) \<and> list_all entryInv (registeredMetrics a))"

subsection \<open>Notions used to state the properties of signatures\<close>

text \<open>A string without the delimiter of the signature.\<close>

definition noStar :: "string \<Rightarrow> bool" where
  "noStar s = (CHR ''*'' \<notin> set s)"

text \<open>The labels as the signature renders them: every value as its string.\<close>

definition rendered :: "('v \<Rightarrow> string) \<Rightarrow> 'v AttributeMap \<Rightarrow> (string \<times> string) list" where
  "rendered toStr am = map (\<lambda>(k, v). (k, toStr v)) am"

text \<open>The keys and rendered values of the labels in a row, as the signature lists them.\<close>

definition components :: "(string \<times> string) list \<Rightarrow> string list" where
  "components kvs = concat (map (\<lambda>(k, v). [k, v]) kvs)"

text \<open>No key and no rendered value of the labels contains the delimiter.\<close>

definition noStarLabels :: "('v \<Rightarrow> string) \<Rightarrow> 'v AttributeMap \<Rightarrow> bool" where
  "noStarLabels toStr am = list_all (\<lambda>(k, v). noStar k \<and> noStar (toStr v)) am"

subsection \<open>Sequences of operations\<close>

text \<open>
  A use of the accumulator is a sequence of calls of \<^verbatim>\<open>Accumulate\<close> and
  \<^verbatim>\<open>Collect\<close>, each with the time at which it runs. A panic ends the run.
\<close>

datatype ('v, 'p) operation =
    OpAccumulate Time "('v, 'p) ResourceMetrics"
  | OpCollect Time

fun run ::
  "('v \<Rightarrow> string) \<Rightarrow> ('v, 'p) operation list \<Rightarrow> ('v, 'p) lastValueAccumulator
     \<Rightarrow> error + ('v, 'p) lastValueAccumulator" where
  "run toStr [] a = Inr a"
| "run toStr (OpAccumulate now rm # ops) a =
     (case Accumulate toStr now rm a of
        Inl e \<Rightarrow> Inl e
      | Inr (n, a', rm') \<Rightarrow> run toStr ops a')"
| "run toStr (OpCollect now # ops) a = run toStr ops (snd (Collect now a))"

subsection \<open>The batch with sorted labels\<close>

text \<open>
  What the in-place sort of the labels makes of a datapoint, of a metric and of a batch:
  the labels of every datapoint that reaches the computation of a signature are sorted by
  key. A sum or histogram that is not cumulative is turned away before that, and so is a
  metric without data.
\<close>

definition sortLabels :: "('v, 'p) DataPoint \<Rightarrow> ('v, 'p) DataPoint" where
  "sortLabels ip = ip\<lparr>Attributes := Sort (Attributes ip)\<rparr>"

definition sortMetricLabels :: "('v, 'p) Metric \<Rightarrow> ('v, 'p) Metric" where
  "sortMetricLabels metric =
     (case Data metric of
        DataNone \<Rightarrow> metric
      | DataGauge dps \<Rightarrow> metric\<lparr>Data := DataGauge (map sortLabels dps)\<rparr>
      | DataSum t im dps \<Rightarrow>
          if t \<noteq> AggregationTemporalityCumulative then metric
          else metric\<lparr>Data := DataSum t im (map sortLabels dps)\<rparr>
      | DataHistogram t dps \<Rightarrow>
          if t \<noteq> AggregationTemporalityCumulative then metric
          else metric\<lparr>Data := DataHistogram t (map sortLabels dps)\<rparr>
      | DataSummary dps \<Rightarrow> metric\<lparr>Data := DataSummary (map sortLabels dps)\<rparr>)"

definition sortBatchLabels :: "('v, 'p) ResourceMetrics \<Rightarrow> ('v, 'p) ResourceMetrics" where
  "sortBatchLabels rm =
     rm\<lparr>LibraryMetrics :=
          map (\<lambda>ilm. ilm\<lparr>Metrics := map sortMetricLabels (Metrics ilm)\<rparr>)
            (LibraryMetrics rm)\<rparr>"

subsection \<open>Notions used to state the remaining properties\<close>

text \<open>A sum or a histogram whose aggregation temporality is not cumulative.\<close>

definition nonCumulative :: "('v, 'p) Metric \<Rightarrow> bool" where
  "nonCumulative metric =
     (case Data metric of
        DataSum t _ _ \<Rightarrow> t \<noteq> AggregationTemporalityCumulative
      | DataHistogram t _ \<Rightarrow> t \<noteq> AggregationTemporalityCumulative
      | _ \<Rightarrow> False)"

text \<open>A batch in which the labels of every datapoint are sorted by key already.\<close>

definition sortedLabels :: "('v, 'p) ResourceMetrics \<Rightarrow> bool" where
  "sortedLabels rm =
     (\<forall>ilm \<in> set (LibraryMetrics rm). \<forall>metric \<in> set (Metrics ilm).
        \<forall>ip \<in> set (DataPoints metric). sorted (map fst (Attributes ip)))"

subsection \<open>Expiration\<close>



subsection \<open>The count of a batch, in the words of the specification\<close>




section \<open>Properties\<close>

subsection \<open>Signatures, lookups and stored entries\<close>

lemma foldl_append_sig:
  "foldl (\<lambda>b (k, v). b @ f k v) b xs = b @ concat (map (\<lambda>(k, v). f k v) xs)"
  by (induction xs arbitrary: b) (auto)

lemma signature_prefix:
  "timeseriesSignature toStr ilmName metric attributes = (attrs, signature) \<Longrightarrow>
   prefix (DataTypeString (DataType metric) @ ''*'') signature"
  by (auto simp add: timeseriesSignature_def Let_def foldl_append_sig prefix_def)

lemma DataTypeString_prefix_inj:
  "prefix (DataTypeString k1 @ ''*'') s \<Longrightarrow> prefix (DataTypeString k2 @ ''*'') s \<Longrightarrow> k1 = k2"
  by (cases k1; cases k2; auto simp: prefix_def)

lemma Load_Store: "Load (Store key v a) k = (if k = key then Some v else Load a k)"
  by (simp add: Load_def Store_def update_conv')

lemma Load_entryInv: "storeInv a \<Longrightarrow> Load a key = Some v \<Longrightarrow> entryInv (key, v)"
  by (auto simp: storeInv_def Load_def list_all_iff dest: map_of_SomeD)

lemma firstTime_stored:
  assumes "storeInv a" and "Load a signature = Some mv"
    and "prefix (DataTypeString ty @ ''*'') signature"
  shows "\<exists>dp. DataPoints (val mv) = [dp] \<and> firstTime ty (val mv) = Inr (AsTime (Timestamp dp))"
proof -
  from Load_entryInv [OF assms(1,2)]
  have len: "length (DataPoints (val mv)) = 1"
    and pre: "prefix (DataTypeString (DataType (val mv)) @ ''*'') signature"
    by (simp_all add: entryInv_def)
  from DataTypeString_prefix_inj [OF pre assms(3)] have ty: "DataType (val mv) = ty" .
  from len obtain dp where dp: "DataPoints (val mv) = [dp]"
    by (cases "DataPoints (val mv)") auto
  with ty show ?thesis by (simp add: firstTime_def At_def)
qed


subsection \<open>The gauge merge policy\<close>




subsection \<open>The identity of signatures\<close>

lemma Sort_permutation:
  "distinct (map fst xs) \<Longrightarrow> mset ys = mset xs \<Longrightarrow> Sort ys = Sort xs"
  unfolding Sort_def
  by (rule sort_key_eq_sort_key) (auto simp: distinct_map dest: mset_eq_setD)

lemma star_split:
  assumes "noStar a" and "noStar b" and "a @ CHR ''*'' # r = b @ CHR ''*'' # r'"
  shows "a = b \<and> r = r'"
proof -
  have "takeWhile (\<lambda>c. c \<noteq> CHR ''*'') (a @ CHR ''*'' # r) = a"
    using assms(1) by (auto simp add: noStar_def takeWhile_tail)
  moreover have "takeWhile (\<lambda>c. c \<noteq> CHR ''*'') (b @ CHR ''*'' # r') = b"
    using assms(2) by (auto simp add: noStar_def takeWhile_tail)
  ultimately have "a = b" using assms(3) by simp
  with assms(3) show ?thesis by simp
qed

lemma star_components:
  assumes "noStar a" and "noStar b"
    and "list_all noStar cs" and "list_all noStar ds"
    and "a @ concat (map (\<lambda>c. CHR ''*'' # c) cs) = b @ concat (map (\<lambda>c. CHR ''*'' # c) ds)"
  shows "a = b \<and> cs = ds"
  using assms
proof (induction cs arbitrary: a b ds)
  case Nil
  show ?case
  proof (cases ds)
    case Nil
    with Nil.prems show ?thesis by simp
  next
    case (Cons d ds')
    with Nil.prems have "CHR ''*'' \<in> set a" by auto
    with Nil.prems show ?thesis by (simp add: noStar_def)
  qed
next
  case (Cons c cs)
  show ?case
  proof (cases ds)
    case Nil
    with Cons.prems have "b = a @ CHR ''*'' # c @ concat (map (\<lambda>c. CHR ''*'' # c) cs)" by simp
    then have "CHR ''*'' \<in> set b" by simp
    with Cons.prems show ?thesis by (simp add: noStar_def)
  next
    case (Cons d ds')
    with Cons.prems
    have eq: "a @ CHR ''*'' # (c @ concat (map (\<lambda>c. CHR ''*'' # c) cs)) =
              b @ CHR ''*'' # (d @ concat (map (\<lambda>c. CHR ''*'' # c) ds'))"
      by simp
    from star_split [OF Cons.prems(1,2) eq]
    have ab: "a = b"
      and rest: "c @ concat (map (\<lambda>c. CHR ''*'' # c) cs) = d @ concat (map (\<lambda>c. CHR ''*'' # c) ds')"
      by simp_all
    from Cons.prems Cons have "noStar c" "noStar d" "list_all noStar cs" "list_all noStar ds'"
      by simp_all
    from Cons.IH [OF this rest] ab Cons show ?thesis by simp
  qed
qed

lemma components_inj: "components xs = components ys \<Longrightarrow> xs = ys"
proof (induction xs arbitrary: ys)
  case Nil
  then show ?case by (cases ys) (auto simp: components_def split: prod.splits)
next
  case (Cons x xs)
  then show ?case by (cases ys) (auto simp: components_def split: prod.splits)
qed

lemma signature_components:
  "snd (timeseriesSignature toStr ilmName metric attributes) =
     DataTypeString (DataType metric) @
       concat (map (\<lambda>c. CHR ''*'' # c)
         (ilmName # Name metric # components (rendered toStr (Sort attributes))))"
proof -
  have "concat (map (\<lambda>(k, v). CHR ''*'' # k @ CHR ''*'' # toStr v) xs) =
        concat (map (\<lambda>c. CHR ''*'' # c) (components (rendered toStr xs)))" for xs :: "'a AttributeMap"
    by (induction xs) (auto simp: components_def rendered_def)
  then show ?thesis
    by (simp add: timeseriesSignature_def Let_def foldl_append_sig)
qed

lemma noStar_DataTypeString: "noStar (DataTypeString k)"
  by (cases k) (simp_all add: noStar_def)

lemma DataTypeString_inj: "DataTypeString k1 = DataTypeString k2 \<Longrightarrow> k1 = k2"
  by (cases k1; cases k2) simp_all

lemma noStar_components:
  "noStarLabels toStr am \<Longrightarrow> list_all noStar (components (rendered toStr (Sort am)))"
proof -
  assume a: "noStarLabels toStr am"
  have "set (Sort am) = set am" by (simp add: Sort_def)
  with a have "noStarLabels toStr (Sort am)" by (simp add: noStarLabels_def list_all_iff)
  then show ?thesis
    by (induction "Sort am") (auto simp: noStarLabels_def components_def rendered_def list_all_iff)
qed

lemma rendered_Sort: "rendered toStr (Sort am) = sort_key fst (rendered toStr am)"
proof -
  have "map (\<lambda>(k, v). (k, toStr v)) (insort_key fst x xs) =
        insort_key fst (case x of (k, v) \<Rightarrow> (k, toStr v)) (map (\<lambda>(k, v). (k, toStr v)) xs)"
    for x :: "string \<times> 'a" and xs
    by (induction xs) (auto split: prod.splits)
  then have "map (\<lambda>(k, v). (k, toStr v)) (sort_key fst am) =
             sort_key fst (map (\<lambda>(k, v). (k, toStr v)) am)"
    by (induction am) simp_all
  then show ?thesis by (simp add: rendered_def Sort_def)
qed

lemma rendered_keys: "map fst (rendered toStr am) = map fst am"
  by (induction am) (auto simp: rendered_def)

lemma rendered_Sort_eq_iff:
  assumes "distinct (map fst xs)"
  shows "rendered toStr (Sort xs) = rendered toStr' (Sort ys) \<longleftrightarrow>
         mset (rendered toStr xs) = mset (rendered toStr' ys)"
proof
  assume "rendered toStr (Sort xs) = rendered toStr' (Sort ys)"
  then have "mset (sort_key fst (rendered toStr xs)) = mset (sort_key fst (rendered toStr' ys))"
    by (simp add: rendered_Sort)
  then show "mset (rendered toStr xs) = mset (rendered toStr' ys)" by simp
next
  assume m: "mset (rendered toStr xs) = mset (rendered toStr' ys)"
  from assms have "distinct (map fst (rendered toStr xs))" by (simp add: rendered_keys)
  then have "inj_on fst (set (rendered toStr xs))" by (simp add: distinct_map)
  from sort_key_eq_sort_key [OF m this]
  show "rendered toStr (Sort xs) = rendered toStr' (Sort ys)" by (simp add: rendered_Sort)
qed

text \<open>
  Claim C2, as the code has it. The signatures of two label lists that are permutations of
  each other are the same when no key occurs twice. Two metrics of different data types
  never have the same signature. Where the delimiter \<open>*\<close> occurs in no scope name,
  metric name, label key or rendered label value, and no key occurs twice, two signatures
  are equal exactly if the data type, the scope name, the metric name and the rendered
  labels, in any order, are the same. (With the delimiter inside a name the signature
  does not tell the inputs apart: see the counterexample.)
\<close>

theorem timeseriesSignature_identity:
  fixes m1 m2 :: "('v, 'p) Metric"
  shows "(distinct (map fst xs1) \<and> mset xs2 = mset xs1 \<longrightarrow>
            snd (timeseriesSignature toStr ilm1 m1 xs2) =
            snd (timeseriesSignature toStr ilm1 m1 xs1))
       \<and> (DataType m1 \<noteq> DataType m2 \<longrightarrow>
            snd (timeseriesSignature toStr ilm1 m1 xs1) \<noteq>
            snd (timeseriesSignature toStr ilm2 m2 xs2))
       \<and> (noStar ilm1 \<and> noStar ilm2 \<and> noStar (Name m1) \<and> noStar (Name m2)
            \<and> noStarLabels toStr xs1 \<and> noStarLabels toStr xs2
            \<and> distinct (map fst xs1) \<longrightarrow>
            (snd (timeseriesSignature toStr ilm1 m1 xs1) =
             snd (timeseriesSignature toStr ilm2 m2 xs2)
             \<longleftrightarrow> DataType m1 = DataType m2 \<and> ilm1 = ilm2 \<and> Name m1 = Name m2
                  \<and> mset (rendered toStr xs1) = mset (rendered toStr xs2)))"
proof (intro conjI impI)
  assume "distinct (map fst xs1) \<and> mset xs2 = mset xs1"
  then have "Sort xs2 = Sort xs1" by (simp add: Sort_permutation)
  then show "snd (timeseriesSignature toStr ilm1 m1 xs2) =
             snd (timeseriesSignature toStr ilm1 m1 xs1)"
    by (simp add: signature_components)
next
  assume ne: "DataType m1 \<noteq> DataType m2"
  show "snd (timeseriesSignature toStr ilm1 m1 xs1) \<noteq>
        snd (timeseriesSignature toStr ilm2 m2 xs2)"
  proof
    assume eq: "snd (timeseriesSignature toStr ilm1 m1 xs1) =
                snd (timeseriesSignature toStr ilm2 m2 xs2)"
    have "prefix (DataTypeString (DataType m1) @ ''*'')
            (snd (timeseriesSignature toStr ilm1 m1 xs1))"
      by (rule signature_prefix) (rule prod.collapse [symmetric])
    moreover have "prefix (DataTypeString (DataType m2) @ ''*'')
            (snd (timeseriesSignature toStr ilm2 m2 xs2))"
      by (rule signature_prefix) (rule prod.collapse [symmetric])
    ultimately have "DataType m1 = DataType m2"
      using eq by (auto dest: DataTypeString_prefix_inj)
    with ne show False by simp
  qed
next
  assume h: "noStar ilm1 \<and> noStar ilm2 \<and> noStar (Name m1) \<and> noStar (Name m2)
            \<and> noStarLabels toStr xs1 \<and> noStarLabels toStr xs2 \<and> distinct (map fst xs1)"
  let ?c1 = "ilm1 # Name m1 # components (rendered toStr (Sort xs1))"
  let ?c2 = "ilm2 # Name m2 # components (rendered toStr (Sort xs2))"
  from h have ns1: "list_all noStar ?c1" and ns2: "list_all noStar ?c2"
    by (simp_all add: noStar_components)
  show "snd (timeseriesSignature toStr ilm1 m1 xs1) =
        snd (timeseriesSignature toStr ilm2 m2 xs2)
        \<longleftrightarrow> DataType m1 = DataType m2 \<and> ilm1 = ilm2 \<and> Name m1 = Name m2
             \<and> mset (rendered toStr xs1) = mset (rendered toStr xs2)"
  proof
    assume "snd (timeseriesSignature toStr ilm1 m1 xs1) =
            snd (timeseriesSignature toStr ilm2 m2 xs2)"
    then have "DataTypeString (DataType m1) @ concat (map (\<lambda>c. CHR ''*'' # c) ?c1) =
               DataTypeString (DataType m2) @ concat (map (\<lambda>c. CHR ''*'' # c) ?c2)"
      by (simp only: signature_components)
    from star_components [OF noStar_DataTypeString noStar_DataTypeString ns1 ns2 this]
    have "DataTypeString (DataType m1) = DataTypeString (DataType m2)" and "?c1 = ?c2"
      by simp_all
    then have "DataType m1 = DataType m2" "ilm1 = ilm2" "Name m1 = Name m2"
      "rendered toStr (Sort xs1) = rendered toStr (Sort xs2)"
      by (auto dest: DataTypeString_inj components_inj)
    with h show "DataType m1 = DataType m2 \<and> ilm1 = ilm2 \<and> Name m1 = Name m2
             \<and> mset (rendered toStr xs1) = mset (rendered toStr xs2)"
      by (simp add: rendered_Sort_eq_iff)
  next
    assume e: "DataType m1 = DataType m2 \<and> ilm1 = ilm2 \<and> Name m1 = Name m2
             \<and> mset (rendered toStr xs1) = mset (rendered toStr xs2)"
    with h have "rendered toStr (Sort xs1) = rendered toStr (Sort xs2)"
      by (simp add: rendered_Sort_eq_iff)
    with e show "snd (timeseriesSignature toStr ilm1 m1 xs1) =
            snd (timeseriesSignature toStr ilm2 m2 xs2)"
      by (simp add: signature_components)
  qed
qed

theorem timeseriesSignature_identity_witness:
  "snd (timeseriesSignature id ''lib''
          \<lparr>Name = ''m'', Description = [], Unit = [],
           Data = DataGauge ([] :: (string, int) DataPoint list)\<rparr>
          [(''a'', ''1''), (''b'', ''2'')]) =
   snd (timeseriesSignature id ''lib''
          \<lparr>Name = ''m'', Description = [], Unit = [],
           Data = DataGauge ([] :: (string, int) DataPoint list)\<rparr>
          [(''b'', ''2''), (''a'', ''1'')])
   \<and> snd (timeseriesSignature id ''lib''
          \<lparr>Name = ''m'', Description = [], Unit = [],
           Data = DataGauge ([] :: (string, int) DataPoint list)\<rparr>
          [(''b'', ''2''), (''a'', ''1'')]) \<noteq>
     snd (timeseriesSignature id ''lib''
          \<lparr>Name = ''m'', Description = [], Unit = [],
           Data = DataSum AggregationTemporalityCumulative True
                    ([] :: (string, int) DataPoint list)\<rparr>
          [(''b'', ''2''), (''a'', ''1'')])
   \<and> snd (timeseriesSignature id ''lib''
          \<lparr>Name = ''m'', Description = [], Unit = [],
           Data = DataGauge ([] :: (string, int) DataPoint list)\<rparr>
          [(''b'', ''2''), (''a'', ''1'')]) \<noteq>
     snd (timeseriesSignature id ''lib''
          \<lparr>Name = ''m'', Description = [], Unit = [],
           Data = DataGauge ([] :: (string, int) DataPoint list)\<rparr>
          [(''b'', ''3''), (''a'', ''1'')])"
  (is "snd (timeseriesSignature id ?ilm ?g ?xs1) = snd (timeseriesSignature id ?ilm ?g ?xs2)
       \<and> _ \<noteq> snd (timeseriesSignature id ?ilm ?s ?xs2)
       \<and> _ \<noteq> snd (timeseriesSignature id ?ilm ?g ?xs3)")
proof -
  have perm: "distinct (map fst ?xs2) \<and> mset ?xs1 = mset ?xs2"
    by simp
  have kind: "DataType ?g \<noteq> DataType ?s"
    by (simp add: DataType_def)
  have stars: "noStar ?ilm \<and> noStar ?ilm \<and> noStar (Name ?g) \<and> noStar (Name ?g)
     \<and> noStarLabels id ?xs2 \<and> noStarLabels id ?xs3 \<and> distinct (map fst ?xs2)"
    by (simp add: noStar_def noStarLabels_def)
  have labels: "mset (rendered id ?xs2) \<noteq> mset (rendered id ?xs3)"
    by (simp add: rendered_def)
  from timeseriesSignature_identity [where ?xs1.0 = ?xs2 and ?xs2.0 = ?xs1 and toStr = id
      and ?ilm1.0 = ?ilm and ?m1.0 = ?g, THEN conjunct1]
    timeseriesSignature_identity [where ?xs1.0 = ?xs2 and ?xs2.0 = ?xs2 and toStr = id
      and ?ilm1.0 = ?ilm and ?ilm2.0 = ?ilm and ?m1.0 = ?g and ?m2.0 = ?s, THEN conjunct2,
      THEN conjunct1]
    timeseriesSignature_identity [where ?xs1.0 = ?xs2 and ?xs2.0 = ?xs3 and toStr = id
      and ?ilm1.0 = ?ilm and ?ilm2.0 = ?ilm and ?m1.0 = ?g and ?m2.0 = ?g, THEN conjunct2,
      THEN conjunct2]
    perm kind stars labels
  show ?thesis by blast
qed

theorem timeseriesSignature_identity_counterexample:
  "snd (timeseriesSignature (id :: string \<Rightarrow> string) ''a*b''
          \<lparr>Name = ''c'', Description = [], Unit = [],
           Data = DataGauge ([] :: (string, int) DataPoint list)\<rparr> []) =
   snd (timeseriesSignature (id :: string \<Rightarrow> string) ''a''
          \<lparr>Name = ''b*c'', Description = [], Unit = [],
           Data = DataGauge ([] :: (string, int) DataPoint list)\<rparr> [])
   \<and> ''a*b'' \<noteq> ''a'' \<and> ''c'' \<noteq> ''b*c''"
  by (simp add: timeseriesSignature_def Sort_def DataType_def)

subsection \<open>The invariant is kept and nothing panics\<close>

lemma DataType_make [simp]:
  "DataType \<lparr>Name = n, Description = d, Unit = u, Data = x\<rparr> =
     (case x of
        DataNone \<Rightarrow> MetricDataTypeNone
      | DataGauge _ \<Rightarrow> MetricDataTypeGauge
      | DataSum _ _ _ \<Rightarrow> MetricDataTypeSum
      | DataHistogram _ _ \<Rightarrow> MetricDataTypeHistogram
      | DataSummary _ \<Rightarrow> MetricDataTypeSummary)"
  by (simp add: DataType_def)

lemma DataPoints_make [simp]:
  "DataPoints \<lparr>Name = n, Description = d, Unit = u, Data = x\<rparr> =
     (case x of
        DataNone \<Rightarrow> []
      | DataGauge dps \<Rightarrow> dps
      | DataSum _ _ dps \<Rightarrow> dps
      | DataHistogram _ dps \<Rightarrow> dps
      | DataSummary dps \<Rightarrow> dps)"
  by (simp add: DataPoints_def)

lemma andThen_simps [simp]:
  "andThen (Inr x) f = f x"
  "andThen (Inl e) f = Inl e"
  by (simp_all add: andThen_def)

lemma list_all_update:
  "list_all P al \<Longrightarrow> P (k, v) \<Longrightarrow> list_all P (AList.update k v al)"
  by (induction al) auto

lemma storeInv_Store:
  "storeInv a \<Longrightarrow> entryInv (key, v) \<Longrightarrow> storeInv (Store key v a)"
  by (simp add: storeInv_def Store_def distinct_update list_all_update)

lemma list_all_delete: "list_all P al \<Longrightarrow> list_all P (AList.delete k al)"
  by (induction al) auto

lemma storeInv_Delete: "storeInv a \<Longrightarrow> storeInv (Delete key a)"
  by (simp add: storeInv_def Delete_def distinct_delete list_all_delete)

lemma storeInv_newAccumulator: "storeInv (newAccumulator d)"
  by (simp add: storeInv_def newAccumulator_def)

lemma storeInv_collectRange:
  "storeInv a \<Longrightarrow> storeInv (snd (collectRange t entries a res))"
  by (induction entries arbitrary: a res) (auto simp: storeInv_Delete)

lemma storeInv_Collect: "storeInv a \<Longrightarrow> storeInv (snd (Collect now a))"
  by (simp add: Collect_def storeInv_collectRange)

lemma timeseriesSignature_fst:
  "fst (timeseriesSignature toStr ilmName metric attributes) = Sort attributes"
  by (simp add: timeseriesSignature_def Let_def)

lemma appendCopy_createMetric:
  "DataType metric = ty \<Longrightarrow>
   appendCopy ty ip (createMetric metric) =
     (case ty of
        MetricDataTypeNone \<Rightarrow> Inl PanicWrongDataType
      | MetricDataTypeGauge \<Rightarrow>
          Inr \<lparr>Name = Name metric, Description = Description metric, Unit = Unit metric,
               Data = DataGauge [ip]\<rparr>
      | MetricDataTypeSum \<Rightarrow>
          Inr \<lparr>Name = Name metric, Description = Description metric, Unit = Unit metric,
               Data = DataSum AggregationTemporalityUnspecified False [ip]\<rparr>
      | MetricDataTypeHistogram \<Rightarrow>
          Inr \<lparr>Name = Name metric, Description = Description metric, Unit = Unit metric,
               Data = DataHistogram AggregationTemporalityUnspecified [ip]\<rparr>
      | MetricDataTypeSummary \<Rightarrow>
          Inr \<lparr>Name = Name metric, Description = Description metric, Unit = Unit metric,
               Data = DataSummary [ip]\<rparr>)"
  by (cases ty)
     (auto simp add: appendCopy_def createMetric_def NewMetric_def DataType_def
        split: MetricData.splits)

lemma sumSnapshot:
  assumes "Data metric = DataSum t im dps"
  shows "andThen (IsMonotonic metric) (\<lambda>im.
         andThen (SetIsMonotonic im (createMetric metric)) (\<lambda>m.
         andThen (SetSumAggregationTemporality AggregationTemporalityCumulative m) (\<lambda>m.
         andThen (appendCopy MetricDataTypeSum ip m) f))) =
         f \<lparr>Name = Name metric, Description = Description metric, Unit = Unit metric,
            Data = DataSum AggregationTemporalityCumulative im [ip]\<rparr>"
  using assms
  by (simp add: andThen_def IsMonotonic_def SetIsMonotonic_def SetSumAggregationTemporality_def
        appendCopy_def createMetric_def NewMetric_def DataType_def)

lemma entryInv_snapshot:
  assumes "timeseriesSignature toStr ilmName metric attributes = (attrs, signature)"
    and "DataType metric = DataType m" and "DataType m \<noteq> MetricDataTypeNone"
    and "DataPoints m = [ip]"
  shows "entryInv (signature, \<lparr>val = m, updated = now, instrumentationLibrary = il\<rparr>)"
  using signature_prefix [OF assms(1)] assms(2-) by (simp add: entryInv_def)

text \<open>Each loop body returns, keeps the invariant, and leaves the datapoint with sorted labels.\<close>

lemma accumulateGaugePoint_inv:
  fixes a :: "('v, 'p) lastValueAccumulator"
  assumes inv: "storeInv a" and ty: "DataType metric = MetricDataTypeGauge"
  shows "\<exists>k a'. accumulateGaugePoint toStr metric il now ip0 a =
                  Inr (k, a', sortLabels ip0) \<and> storeInv a'"
proof -
  obtain attrs signature
    where sig: "timeseriesSignature toStr (LibraryName il) metric (Attributes ip0) =
                  (attrs, signature)"
    by (cases "timeseriesSignature toStr (LibraryName il) metric (Attributes ip0)")
  from sig timeseriesSignature_fst [of toStr "LibraryName il" metric "Attributes ip0"]
  have attrs: "attrs = Sort (Attributes ip0)" by simp
  note sortLabels_def [simp]
  let ?ip = "ip0\<lparr>Attributes := attrs\<rparr>"
  let ?m = "\<lparr>Name = Name metric, Description = Description metric, Unit = Unit metric,
             Data = DataGauge [?ip]\<rparr>"
  have "entryInv (signature, \<lparr>val = ?m, updated = now, instrumentationLibrary = il\<rparr>)"
    by (rule entryInv_snapshot [OF sig]) (simp_all add: ty)
  with inv
  have st: "storeInv (Store signature \<lparr>val = ?m, updated = now, instrumentationLibrary = il\<rparr> a)"
    by (rule storeInv_Store)
  show ?thesis
  proof (cases "Load a signature")
    case None
    with st show ?thesis
      by (simp add: accumulateGaugePoint_def sig andThen_def Let_def
            appendCopy_createMetric [OF ty] attrs)
  next
    case (Some mv)
    from signature_prefix [OF sig] ty
    have "prefix (DataTypeString MetricDataTypeGauge @ ''*'') signature" by simp
    from firstTime_stored [OF inv Some this] obtain dp :: "('v, 'p) DataPoint"
      where "firstTime MetricDataTypeGauge (val mv) = Inr (AsTime (Timestamp dp))" by blast
    with st inv Some show ?thesis
      by (simp add: accumulateGaugePoint_def sig andThen_def Let_def
            appendCopy_createMetric [OF ty] attrs)
  qed
qed

lemma accumulateSummaryPoint_inv:
  fixes a :: "('v, 'p) lastValueAccumulator"
  assumes inv: "storeInv a" and ty: "DataType metric = MetricDataTypeSummary"
  shows "\<exists>k a'. accumulateSummaryPoint toStr metric il now ip0 a =
                  Inr (k, a', sortLabels ip0) \<and> storeInv a'"
proof -
  obtain attrs signature
    where sig: "timeseriesSignature toStr (LibraryName il) metric (Attributes ip0) =
                  (attrs, signature)"
    by (cases "timeseriesSignature toStr (LibraryName il) metric (Attributes ip0)")
  from sig timeseriesSignature_fst [of toStr "LibraryName il" metric "Attributes ip0"]
  have attrs: "attrs = Sort (Attributes ip0)" by simp
  note sortLabels_def [simp]
  let ?ip = "ip0\<lparr>Attributes := attrs\<rparr>"
  let ?m = "\<lparr>Name = Name metric, Description = Description metric, Unit = Unit metric,
             Data = DataSummary [?ip]\<rparr>"
  have "entryInv (signature, \<lparr>val = ?m, updated = now, instrumentationLibrary = il\<rparr>)"
    by (rule entryInv_snapshot [OF sig]) (simp_all add: ty)
  with inv
  have st: "storeInv (Store signature \<lparr>val = ?m, updated = now, instrumentationLibrary = il\<rparr> a)"
    by (rule storeInv_Store)
  show ?thesis
  proof (cases "Load a signature")
    case None
    with st show ?thesis
      by (simp add: accumulateSummaryPoint_def sig andThen_def Let_def
            appendCopy_createMetric [OF ty] attrs)
  next
    case (Some mv)
    from signature_prefix [OF sig] ty
    have "prefix (DataTypeString MetricDataTypeSummary @ ''*'') signature" by simp
    from firstTime_stored [OF inv Some this] obtain dp :: "('v, 'p) DataPoint"
      where "firstTime MetricDataTypeSummary (val mv) = Inr (AsTime (Timestamp dp))" by blast
    with st inv Some show ?thesis
      by (simp add: accumulateSummaryPoint_def sig andThen_def Let_def
            appendCopy_createMetric [OF ty] attrs)
  qed
qed

lemma accumulateSumPoint_inv:
  fixes a :: "('v, 'p) lastValueAccumulator"
  assumes inv: "storeInv a" and data: "Data metric = DataSum t im dps"
  shows "\<exists>k a'. accumulateSumPoint toStr metric il now ip0 a =
                  Inr (k, a', sortLabels ip0) \<and> storeInv a'"
proof -
  from data have ty: "DataType metric = MetricDataTypeSum" by (simp add: DataType_def)
  obtain attrs signature
    where sig: "timeseriesSignature toStr (LibraryName il) metric (Attributes ip0) =
                  (attrs, signature)"
    by (cases "timeseriesSignature toStr (LibraryName il) metric (Attributes ip0)")
  from sig timeseriesSignature_fst [of toStr "LibraryName il" metric "Attributes ip0"]
  have attrs: "attrs = Sort (Attributes ip0)" by simp
  note sortLabels_def [simp]
  let ?ip = "ip0\<lparr>Attributes := attrs\<rparr>"
  let ?m = "\<lparr>Name = Name metric, Description = Description metric, Unit = Unit metric,
             Data = DataSum AggregationTemporalityCumulative im [?ip]\<rparr>"
  have "entryInv (signature, \<lparr>val = ?m, updated = now, instrumentationLibrary = il\<rparr>)"
    by (rule entryInv_snapshot [OF sig]) (simp_all add: ty)
  with inv
  have st: "storeInv (Store signature \<lparr>val = ?m, updated = now, instrumentationLibrary = il\<rparr> a)"
    by (rule storeInv_Store)
  show ?thesis
  proof (cases "Load a signature")
    case None
    with st show ?thesis
      by (simp add: accumulateSumPoint_def sig Let_def sumSnapshot [OF data] attrs)
  next
    case (Some mv)
    from signature_prefix [OF sig] ty
    have "prefix (DataTypeString MetricDataTypeSum @ ''*'') signature" by simp
    from firstTime_stored [OF inv Some this] obtain dp :: "('v, 'p) DataPoint"
      where "firstTime MetricDataTypeSum (val mv) = Inr (AsTime (Timestamp dp))" by blast
    with st inv Some show ?thesis
      by (simp add: accumulateSumPoint_def sig Let_def sumSnapshot [OF data] attrs)
  qed
qed

lemma accumulateDoubleHistogramPoint_inv:
  fixes a :: "('v, 'p) lastValueAccumulator"
  assumes inv: "storeInv a" and ty: "DataType metric = MetricDataTypeHistogram"
  shows "\<exists>k a'. accumulateDoubleHistogramPoint toStr metric il now ip0 a =
                  Inr (k, a', sortLabels ip0) \<and> storeInv a'"
proof -
  obtain attrs signature
    where sig: "timeseriesSignature toStr (LibraryName il) metric (Attributes ip0) =
                  (attrs, signature)"
    by (cases "timeseriesSignature toStr (LibraryName il) metric (Attributes ip0)")
  from sig timeseriesSignature_fst [of toStr "LibraryName il" metric "Attributes ip0"]
  have attrs: "attrs = Sort (Attributes ip0)" by simp
  note sortLabels_def [simp]
  let ?ip = "ip0\<lparr>Attributes := attrs\<rparr>"
  let ?m = "\<lambda>t. \<lparr>Name = Name metric, Description = Description metric, Unit = Unit metric,
             Data = DataHistogram t [?ip]\<rparr>"
  have "entryInv (signature, \<lparr>val = ?m t, updated = now, instrumentationLibrary = il\<rparr>)" for t
    by (rule entryInv_snapshot [OF sig]) (simp_all add: ty)
  with inv
  have st: "storeInv (Store signature \<lparr>val = ?m t, updated = now, instrumentationLibrary = il\<rparr> a)"
    for t
    by (rule storeInv_Store)
  show ?thesis
  proof (cases "Load a signature")
    case None
    with st show ?thesis
      by (simp add: accumulateDoubleHistogramPoint_def sig andThen_def Let_def
            appendCopy_createMetric [OF ty] attrs)
  next
    case (Some mv)
    from signature_prefix [OF sig] ty
    have "prefix (DataTypeString MetricDataTypeHistogram @ ''*'') signature" by simp
    from firstTime_stored [OF inv Some this] obtain dp :: "('v, 'p) DataPoint"
      where "firstTime MetricDataTypeHistogram (val mv) = Inr (AsTime (Timestamp dp))" by blast
    with st inv Some show ?thesis
      by (simp add: accumulateDoubleHistogramPoint_def sig Let_def
            attrs appendCopy_createMetric [OF ty] SetHistogramAggregationTemporality_def)
  qed
qed

lemma accumulatePoints_inv:
  fixes a :: "('v, 'p) lastValueAccumulator"
  assumes body: "\<And>ip (a :: ('v, 'p) lastValueAccumulator). storeInv a \<Longrightarrow>
                  \<exists>k a'. body ip a = Inr (k, a', sortLabels ip) \<and> storeInv a'"
    and inv: "storeInv a"
  shows "\<exists>n' a'. accumulatePoints body dps n a = Inr (n', a', map sortLabels dps) \<and> storeInv a'"
  using inv
proof (induction dps arbitrary: n a)
  case Nil
  then show ?case by simp
next
  case (Cons ip dps)
  from body [OF Cons.prems] obtain k a1
    where step: "body ip a = Inr (k, a1, sortLabels ip)" and inv1: "storeInv a1" by blast
  from Cons.IH [OF inv1, of "n + k"] obtain n' a'
    where "accumulatePoints body dps (n + k) a1 = Inr (n', a', map sortLabels dps)"
      and "storeInv a'" by blast
  with step show ?case by simp
qed

lemma addMetric_inv:
  fixes a :: "('v, 'p) lastValueAccumulator"
  assumes inv: "storeInv a"
  shows "\<exists>n a'. addMetric toStr metric il now a = Inr (n, a', sortMetricLabels metric)
           \<and> storeInv a'"
proof (cases "Data metric")
  case DataNone
  with inv show ?thesis by (simp add: addMetric_def DataType_def sortMetricLabels_def)
next
  case (DataGauge dps)
  then have ty: "DataType metric = MetricDataTypeGauge" by (simp add: DataType_def)
  from accumulatePoints_inv [of "accumulateGaugePoint toStr metric il now" a dps 0,
      OF accumulateGaugePoint_inv [OF _ ty] inv]
  show ?thesis
    by (auto simp: addMetric_def ty accumulateGauge_def DataGauge sortMetricLabels_def)
next
  case (DataSum t im dps)
  then have ty: "DataType metric = MetricDataTypeSum" by (simp add: DataType_def)
  from accumulatePoints_inv [of "accumulateSumPoint toStr metric il now" a dps 0,
      OF accumulateSumPoint_inv [OF _ DataSum] inv] inv
  show ?thesis
    by (auto simp: addMetric_def ty accumulateSum_def DataSum sortMetricLabels_def)
next
  case (DataHistogram t dps)
  then have ty: "DataType metric = MetricDataTypeHistogram" by (simp add: DataType_def)
  from accumulatePoints_inv [of "accumulateDoubleHistogramPoint toStr metric il now" a dps 0,
      OF accumulateDoubleHistogramPoint_inv [OF _ ty] inv] inv
  show ?thesis
    by (auto simp: addMetric_def ty accumulateDoubleHistogram_def DataHistogram
          sortMetricLabels_def)
next
  case (DataSummary dps)
  then have ty: "DataType metric = MetricDataTypeSummary" by (simp add: DataType_def)
  from accumulatePoints_inv [of "accumulateSummaryPoint toStr metric il now" a dps 0,
      OF accumulateSummaryPoint_inv [OF _ ty] inv]
  show ?thesis
    by (auto simp: addMetric_def ty accumulateSummary_def DataSummary sortMetricLabels_def)
qed

lemma addMetrics_inv:
  fixes a :: "('v, 'p) lastValueAccumulator"
  assumes "storeInv a"
  shows "\<exists>n' a'. addMetrics toStr il now metrics n a =
                   Inr (n', a', map sortMetricLabels metrics) \<and> storeInv a'"
  using assms
proof (induction metrics arbitrary: n a)
  case Nil
  then show ?case by simp
next
  case (Cons metric metrics)
  from addMetric_inv [OF Cons.prems] obtain k a1
    where step: "addMetric toStr metric il now a = Inr (k, a1, sortMetricLabels metric)"
      and inv1: "storeInv a1" by blast
  from Cons.IH [OF inv1, of "n + k"] obtain n' a'
    where "addMetrics toStr il now metrics (n + k) a1 =
             Inr (n', a', map sortMetricLabels metrics)"
      and "storeInv a'" by blast
  with step show ?case by simp
qed

lemma addLibraries_inv:
  fixes a :: "('v, 'p) lastValueAccumulator"
  assumes "storeInv a"
  shows "\<exists>n' a'. addLibraries toStr now ilms n a =
                   Inr (n', a',
                     map (\<lambda>ilm. ilm\<lparr>Metrics := map sortMetricLabels (Metrics ilm)\<rparr>) ilms)
                 \<and> storeInv a'"
  using assms
proof (induction ilms arbitrary: n a)
  case Nil
  then show ?case by simp
next
  case (Cons ilm ilms)
  from addMetrics_inv [OF Cons.prems] obtain n1 a1
    where step: "addMetrics toStr (Library ilm) now (Metrics ilm) n a =
                   Inr (n1, a1, map sortMetricLabels (Metrics ilm))"
      and inv1: "storeInv a1" by blast
  from Cons.IH [OF inv1, of n1] obtain n' a'
    where "addLibraries toStr now ilms n1 a1 =
             Inr (n', a',
               map (\<lambda>ilm. ilm\<lparr>Metrics := map sortMetricLabels (Metrics ilm)\<rparr>) ilms)"
      and "storeInv a'" by blast
  with step show ?case by simp
qed

lemma Accumulate_inv:
  fixes a :: "('v, 'p) lastValueAccumulator"
  assumes "storeInv a"
  shows "\<exists>n a'. Accumulate toStr now rm a = Inr (n, a', sortBatchLabels rm) \<and> storeInv a'"
proof -
  from addLibraries_inv [OF assms, of toStr now "LibraryMetrics rm" 0]
  show ?thesis by (auto simp: Accumulate_def sortBatchLabels_def)
qed

lemma run_inv:
  fixes a :: "('v, 'p) lastValueAccumulator"
  assumes "storeInv a"
  shows "\<exists>a'. run toStr ops a = Inr a' \<and> storeInv a'"
  using assms
proof (induction ops arbitrary: a)
  case Nil
  then show ?case by simp
next
  case (Cons op ops)
  show ?case
  proof (cases op)
    case (OpAccumulate now rm)
    from Accumulate_inv [OF Cons.prems, of toStr now rm] obtain n a1
      where "Accumulate toStr now rm a = Inr (n, a1, sortBatchLabels rm)" and "storeInv a1"
      by blast
    with Cons.IH [of a1] OpAccumulate show ?thesis by simp
  next
    case (OpCollect now)
    with Cons.IH [OF storeInv_Collect [OF Cons.prems, of now]] show ?thesis by simp
  qed
qed

text \<open>The definitions that evaluate a run on a concrete input.\<close>

lemmas accumulate_eval =
  Accumulate_def addMetric_def accumulateGauge_def accumulateSum_def
  accumulateDoubleHistogram_def accumulateSummary_def
  accumulateGaugePoint_def accumulateSumPoint_def accumulateDoubleHistogramPoint_def
  accumulateSummaryPoint_def timeseriesSignature_def Sort_def Load_def Store_def
  createMetric_def NewMetric_def appendCopy_def firstTime_def At_def DataType_def
  DataPoints_def IsMonotonic_def SetIsMonotonic_def SetSumAggregationTemporality_def
  SetHistogramAggregationTemporality_def Before_def AsTime_def newAccumulator_def Let_def

lemmas collect_eval = Collect_def Add_def After_def Delete_def

text \<open>
  Claim C10. Every sequence of \<^verbatim>\<open>Accumulate\<close> and \<^verbatim>\<open>Collect\<close> calls on
  a new accumulator runs to its end without a panic, and in the store it leaves no
  signature has two entries and every entry holds a metric with exactly one datapoint.
  So whenever the lookup of a signature succeeds, the read of the datapoint at index 0 of
  the stored metric, as a metric of the data type of the incoming one, is in bounds and
  gives the time that the staleness check compares with; and any further
  \<^verbatim>\<open>Accumulate\<close> returns.
\<close>

theorem store_invariant:
  fixes toStr :: "'v \<Rightarrow> string" and ops :: "('v, 'p) operation list"
  shows "\<exists>a. run toStr ops (newAccumulator d) = Inr a
           \<and> distinct (map fst (registeredMetrics a))
           \<and> (\<forall>e \<in> set (registeredMetrics a). length (DataPoints (val (snd e))) = 1)
           \<and> (\<forall>(metric :: ('v, 'p) Metric) ilmName attributes mv.
                 Load a (snd (timeseriesSignature toStr ilmName metric attributes)) = Some mv
                 \<longrightarrow> (\<exists>dp. At (DataPoints (val mv)) 0 = Inr dp
                        \<and> firstTime (DataType metric) (val mv) = Inr (AsTime (Timestamp dp))))
           \<and> (\<forall>now rm. \<exists>n a' rm'. Accumulate toStr now rm a = Inr (n, a', rm'))"
proof -
  from run_inv [OF storeInv_newAccumulator, of toStr ops d]
  obtain a where r: "run toStr ops (newAccumulator d) = Inr a" and inv: "storeInv a"
    by blast
  from inv have "distinct (map fst (registeredMetrics a))"
    and "\<forall>e \<in> set (registeredMetrics a). length (DataPoints (val (snd e))) = 1"
    by (simp_all add: storeInv_def entryInv_def list_all_iff)
  moreover have "\<exists>dp. At (DataPoints (val mv)) 0 = Inr dp
                   \<and> firstTime (DataType metric) (val mv) = Inr (AsTime (Timestamp dp))"
    if l: "Load a (snd (timeseriesSignature toStr ilmName metric attributes)) = Some mv"
    for metric :: "('v, 'p) Metric" and ilmName attributes mv
  proof -
    have "prefix (DataTypeString (DataType metric) @ ''*'')
            (snd (timeseriesSignature toStr ilmName metric attributes))"
      by (rule signature_prefix) (rule prod.collapse [symmetric])
    from firstTime_stored [OF inv l this] show ?thesis
      by (auto simp: At_def)
  qed
  moreover have "\<exists>n a' rm'. Accumulate toStr now rm a = Inr (n, a', rm')" for now rm
    using Accumulate_inv [OF inv, of toStr now rm] by blast
  ultimately show ?thesis using r by blast
qed

theorem store_invariant_witness:
  "run id
     [OpAccumulate 1
        \<lparr>LibraryMetrics =
           [\<lparr>Library = \<lparr>LibraryName = ''lib'', LibraryVersion = []\<rparr>,
             Metrics =
               [\<lparr>Name = ''m'', Description = [], Unit = [],
                 Data = DataGauge
                   [\<lparr>Attributes = [(''k'', ''v'')], Timestamp = 100, Payload = (10::int)\<rparr>,
                    \<lparr>Attributes = [(''k'', ''v'')], Timestamp = 200, Payload = 20\<rparr>]\<rparr>]\<rparr>]\<rparr>,
      OpCollect 2]
     (newAccumulator 5) =
   Inr \<lparr>registeredMetrics =
          [(''Gauge*lib*m*k*v'',
            \<lparr>val = \<lparr>Name = ''m'', Description = [], Unit = [],
                    Data = DataGauge
                      [\<lparr>Attributes = [(''k'', ''v'')], Timestamp = 200, Payload = 20\<rparr>]\<rparr>,
             updated = 1,
             instrumentationLibrary = \<lparr>LibraryName = ''lib'', LibraryVersion = []\<rparr>\<rparr>)],
        metricExpiration = 5\<rparr>
   \<and> length (DataPoints
        \<lparr>Name = ''m'', Description = [], Unit = [],
         Data = DataGauge
           [\<lparr>Attributes = [(''k'', ''v'')], Timestamp = 200, Payload = (20::int)\<rparr>]\<rparr>) = 1"
  (is "run id ?ops (newAccumulator 5) = Inr ?a \<and> _")
proof -
  have r: "run id ?ops (newAccumulator 5) = Inr ?a"
    by (simp add: accumulate_eval collect_eval)
  from store_invariant [of id ?ops 5] r
  have "\<forall>e \<in> set (registeredMetrics ?a). length (DataPoints (val (snd e))) = 1"
    by auto
  with r show ?thesis by simp
qed

subsection \<open>The summary merge policy\<close>





subsection \<open>The snapshots of cumulative sums\<close>

lemma accumulateSumPoint_stores:
  fixes a :: "('v, 'p) lastValueAccumulator"
  assumes data: "Data metric = DataSum t im dps0"
    and sig: "timeseriesSignature toStr (LibraryName il) metric (Attributes ip0) =
                (attributes, signature)"
    and res: "accumulateSumPoint toStr metric il now ip0 a = Inr (k, a1, ip1)"
  shows "(k = 0 \<and> a1 = a) \<or>
         (k = 1 \<and> a1 = Store signature
            \<lparr>val = \<lparr>Name = Name metric, Description = Description metric,
                    Unit = Unit metric,
                    Data = DataSum AggregationTemporalityCumulative im
                             [ip0\<lparr>Attributes := attributes\<rparr>]\<rparr>,
             updated = now, instrumentationLibrary = il\<rparr> a)"
proof (cases "Load a signature")
  case None
  with res show ?thesis
    by (auto simp add: accumulateSumPoint_def sig Let_def sumSnapshot [OF data])
next
  case (Some mv)
  show ?thesis
  proof (cases "firstTime MetricDataTypeSum (val mv)")
    case (Inl e)
    with res Some show ?thesis
      by (simp add: accumulateSumPoint_def sig Let_def)
  next
    case (Inr t0)
    with res Some show ?thesis
      by (auto simp add: accumulateSumPoint_def sig Let_def sumSnapshot [OF data]
            split: if_splits)
  qed
qed

lemma accumulatePoints_entries:
  fixes a :: "('v, 'p) lastValueAccumulator"
  assumes step: "\<And>ip (a :: ('v, 'p) lastValueAccumulator) k a1 ip1.
                   body ip a = Inr (k, a1, ip1) \<Longrightarrow>
                   a1 = a \<or> (\<exists>key v. a1 = Store key v a \<and> Q v)"
    and res: "accumulatePoints body dps n a = Inr (n', a', dps')"
  shows "\<forall>key v. Load a' key = Some v \<longrightarrow> Load a key = Some v \<or> Q v"
  using res
proof (induction dps arbitrary: n a n' a' dps')
  case Nil
  then show ?case by simp
next
  case (Cons ip dps)
  from Cons.prems obtain k a1 ip1 where b: "body ip a = Inr (k, a1, ip1)"
    by (auto split: sum.splits)
  with Cons.prems obtain dps1
    where r: "accumulatePoints body dps (n + k) a1 = Inr (n', a', dps1)"
    by (auto split: sum.splits)
  from Cons.IH [OF r]
  have ih: "\<forall>key v. Load a' key = Some v \<longrightarrow> Load a1 key = Some v \<or> Q v" .
  from step [OF b] show ?case
  proof
    assume "a1 = a"
    with ih show ?thesis by simp
  next
    assume "\<exists>key v. a1 = Store key v a \<and> Q v"
    then obtain key0 v0 where a1: "a1 = Store key0 v0 a" and q: "Q v0" by blast
    show ?thesis
    proof (intro allI impI)
      fix key v assume "Load a' key = Some v"
      with ih have "Load a1 key = Some v \<or> Q v" by blast
      with a1 q show "Load a key = Some v \<or> Q v"
        by (auto simp: Load_Store split: if_splits)
    qed
  qed
qed

text \<open>
  Claim C6. Every snapshot that the merge policy of cumulative sums stores is a sum with
  the monotonic flag of the incoming metric and with cumulative temporality, holding the
  incoming datapoint alone: on the first store for a signature, on a replacement, on
  every iteration that counts, and so for every entry that a whole call of
  \<^verbatim>\<open>accumulateSum\<close> adds to the store or changes in it.
\<close>

theorem accumulateSum_snapshot_fields:
  fixes a :: "('v, 'p) lastValueAccumulator" and now :: Time and il :: InstrumentationLibrary
    and metric :: "('v, 'p) Metric" and im :: bool
  assumes data: "Data metric = DataSum t im dps0"
    and sig: "timeseriesSignature toStr (LibraryName il) metric (Attributes ip0) =
                (attributes, signature)"
  defines "ip \<equiv> ip0\<lparr>Attributes := attributes\<rparr>"
  defines "snapshot \<equiv> \<lambda>p.
             \<lparr>val = \<lparr>Name = Name metric, Description = Description metric,
                     Unit = Unit metric,
                     Data = DataSum AggregationTemporalityCumulative im [p]\<rparr>,
              updated = now, instrumentationLibrary = il\<rparr>"
  shows "(Load a signature = None \<longrightarrow>
            accumulateSumPoint toStr metric il now ip0 a =
              Inr (1, Store signature (snapshot ip) a, ip))
       \<and> (\<forall>mv t' im' dp dps.
            Load a signature = Some mv \<and> Data (val mv) = DataSum t' im' (dp # dps)
            \<and> \<not> Before (AsTime (Timestamp ip0)) (AsTime (Timestamp dp)) \<longrightarrow>
            accumulateSumPoint toStr metric il now ip0 a =
              Inr (1, Store signature (snapshot ip) a, ip))
       \<and> (\<forall>k a1 ip1. accumulateSumPoint toStr metric il now ip0 a = Inr (k, a1, ip1) \<longrightarrow>
            (k = 0 \<and> a1 = a) \<or> (k = 1 \<and> a1 = Store signature (snapshot ip) a))
       \<and> (\<forall>n a' metric'. accumulateSum toStr metric il now a = Inr (n, a', metric') \<longrightarrow>
            (\<forall>key v. Load a' key = Some v \<longrightarrow>
               Load a key = Some v \<or> (\<exists>p. v = snapshot p)))"
proof (intro conjI allI impI)
  assume "Load a signature = None"
  then show "accumulateSumPoint toStr metric il now ip0 a =
               Inr (1, Store signature (snapshot ip) a, ip)"
    by (simp add: accumulateSumPoint_def sig Let_def sumSnapshot [OF data] ip_def
          snapshot_def)
next
  fix mv :: "('v, 'p) accumulatedValue" and t' im' dp dps
  assume "Load a signature = Some mv \<and> Data (val mv) = DataSum t' im' (dp # dps)
            \<and> \<not> Before (AsTime (Timestamp ip0)) (AsTime (Timestamp dp))"
  then show "accumulateSumPoint toStr metric il now ip0 a =
               Inr (1, Store signature (snapshot ip) a, ip)"
    by (simp add: accumulateSumPoint_def sig Let_def sumSnapshot [OF data] ip_def
          snapshot_def firstTime_def DataType_def DataPoints_def At_def)
next
  fix k a1 ip1
  assume "accumulateSumPoint toStr metric il now ip0 a = Inr (k, a1, ip1)"
  from accumulateSumPoint_stores [OF data sig this]
  show "(k = 0 \<and> a1 = a) \<or> (k = 1 \<and> a1 = Store signature (snapshot ip) a)"
    by (simp add: ip_def snapshot_def)
next
  fix n a' metric' key v
  assume res: "accumulateSum toStr metric il now a = Inr (n, a', metric')"
    and l: "Load a' key = Some v"
  show "Load a key = Some v \<or> (\<exists>p. v = snapshot p)"
  proof (cases "t = AggregationTemporalityCumulative")
    case False
    with res l data show ?thesis by (simp add: accumulateSum_def)
  next
    case True
    with res data obtain dps'
      where r: "accumulatePoints (accumulateSumPoint toStr metric il now) dps0 0 a =
                  Inr (n, a', dps')"
      by (auto simp: accumulateSum_def andThen_def split: sum.splits)
    have "\<forall>key v. Load a' key = Some v \<longrightarrow> Load a key = Some v \<or> (\<exists>p. v = snapshot p)"
    proof (rule accumulatePoints_entries [OF _ r])
      fix p0 p1 k and a0 a1 :: "('v, 'p) lastValueAccumulator"
      assume step: "accumulateSumPoint toStr metric il now p0 a0 = Inr (k, a1, p1)"
      obtain attrs sg
        where "timeseriesSignature toStr (LibraryName il) metric (Attributes p0) = (attrs, sg)"
        by (cases "timeseriesSignature toStr (LibraryName il) metric (Attributes p0)")
      from accumulateSumPoint_stores [OF data this step]
      show "a1 = a0 \<or> (\<exists>key v. a1 = Store key v a0 \<and> (\<exists>p. v = snapshot p))"
        by (auto simp: snapshot_def)
    qed
    with l
    show ?thesis by blast
  qed
qed

theorem accumulateSum_snapshot_fields_witness:
  "accumulateSumPoint id
     \<lparr>Name = ''m'', Description = [], Unit = [],
      Data = DataSum AggregationTemporalityCumulative True
               [\<lparr>Attributes = [(''k'', ''v'')], Timestamp = 100, Payload = (10::int)\<rparr>]\<rparr>
     \<lparr>LibraryName = ''lib'', LibraryVersion = []\<rparr> 2
     \<lparr>Attributes = [(''k'', ''v'')], Timestamp = 100, Payload = 10\<rparr>
     (newAccumulator 5)
   = Inr (1,
       Store ''Sum*lib*m*k*v''
        \<lparr>val = \<lparr>Name = ''m'', Description = [], Unit = [],
                Data = DataSum AggregationTemporalityCumulative True
                         [\<lparr>Attributes = [(''k'', ''v'')], Timestamp = 100, Payload = 10\<rparr>]\<rparr>,
         updated = 2, instrumentationLibrary = \<lparr>LibraryName = ''lib'', LibraryVersion = []\<rparr>\<rparr>
        (newAccumulator 5),
       \<lparr>Attributes = [(''k'', ''v'')], Timestamp = 100, Payload = 10\<rparr>)"
  (is "accumulateSumPoint id ?m ?il 2 ?ip ?a = _")
proof -
  have data: "Data ?m = DataSum AggregationTemporalityCumulative True [?ip]"
    by simp
  have sig: "timeseriesSignature id (LibraryName ?il) ?m (Attributes ?ip) =
               ([(''k'', ''v'')], ''Sum*lib*m*k*v'')"
    by (simp add: timeseriesSignature_def Sort_def DataType_def)
  have look: "Load ?a ''Sum*lib*m*k*v'' = None"
    by (simp add: Load_def newAccumulator_def)
  from accumulateSum_snapshot_fields [OF data sig, of ?a 2, THEN conjunct1, rule_format,
      OF look]
  show ?thesis by simp
qed

subsection \<open>The snapshots of cumulative histograms\<close>

text \<open>
  Claim C5, evaluated. The first store of a cumulative histogram for a signature installs
  a snapshot whose aggregation temporality is unspecified: that path copies the
  datapoint into the metric made by \<^verbatim>\<open>createMetric\<close> and never sets the
  temporality. The replacement path does set it: accumulating the same datapoint again
  installs a snapshot with cumulative temporality.
\<close>

theorem accumulateDoubleHistogram_first_store:
  "accumulateDoubleHistogram id
     \<lparr>Name = ''h'', Description = [], Unit = [],
      Data = DataHistogram AggregationTemporalityCumulative
               [\<lparr>Attributes = [(''k'', ''v'')], Timestamp = 100, Payload = (10::int)\<rparr>]\<rparr>
     \<lparr>LibraryName = ''lib'', LibraryVersion = []\<rparr> 1 (newAccumulator 5)
   = Inr (1,
       \<lparr>registeredMetrics =
          [(''Histogram*lib*h*k*v'',
            \<lparr>val = \<lparr>Name = ''h'', Description = [], Unit = [],
                    Data = DataHistogram AggregationTemporalityUnspecified
                      [\<lparr>Attributes = [(''k'', ''v'')], Timestamp = 100, Payload = 10\<rparr>]\<rparr>,
             updated = 1,
             instrumentationLibrary = \<lparr>LibraryName = ''lib'', LibraryVersion = []\<rparr>\<rparr>)],
        metricExpiration = 5\<rparr>,
       \<lparr>Name = ''h'', Description = [], Unit = [],
        Data = DataHistogram AggregationTemporalityCumulative
                 [\<lparr>Attributes = [(''k'', ''v'')], Timestamp = 100, Payload = 10\<rparr>]\<rparr>)
   \<and> accumulateDoubleHistogram id
     \<lparr>Name = ''h'', Description = [], Unit = [],
      Data = DataHistogram AggregationTemporalityCumulative
               [\<lparr>Attributes = [(''k'', ''v'')], Timestamp = 100, Payload = (10::int)\<rparr>]\<rparr>
     \<lparr>LibraryName = ''lib'', LibraryVersion = []\<rparr> 2
     \<lparr>registeredMetrics =
          [(''Histogram*lib*h*k*v'',
            \<lparr>val = \<lparr>Name = ''h'', Description = [], Unit = [],
                    Data = DataHistogram AggregationTemporalityUnspecified
                      [\<lparr>Attributes = [(''k'', ''v'')], Timestamp = 100, Payload = 10\<rparr>]\<rparr>,
             updated = 1,
             instrumentationLibrary = \<lparr>LibraryName = ''lib'', LibraryVersion = []\<rparr>\<rparr>)],
        metricExpiration = 5\<rparr>
   = Inr (1,
       \<lparr>registeredMetrics =
          [(''Histogram*lib*h*k*v'',
            \<lparr>val = \<lparr>Name = ''h'', Description = [], Unit = [],
                    Data = DataHistogram AggregationTemporalityCumulative
                      [\<lparr>Attributes = [(''k'', ''v'')], Timestamp = 100, Payload = 10\<rparr>]\<rparr>,
             updated = 2,
             instrumentationLibrary = \<lparr>LibraryName = ''lib'', LibraryVersion = []\<rparr>\<rparr>)],
        metricExpiration = 5\<rparr>,
       \<lparr>Name = ''h'', Description = [], Unit = [],
        Data = DataHistogram AggregationTemporalityCumulative
                 [\<lparr>Attributes = [(''k'', ''v'')], Timestamp = 100, Payload = 10\<rparr>]\<rparr>)"
  by (simp add: accumulate_eval)

subsection \<open>Sums and histograms that are not cumulative\<close>

lemma addMetric_nonCumulative:
  "nonCumulative metric \<Longrightarrow> addMetric toStr metric il now a = Inr (0, a, metric)"
  by (auto simp: nonCumulative_def addMetric_def DataType_def accumulateSum_def
        accumulateDoubleHistogram_def split: MetricData.splits)

lemma addMetrics_nonCumulative:
  "\<forall>m \<in> set metrics. nonCumulative m \<Longrightarrow>
   addMetrics toStr il now metrics n a = Inr (n, a, metrics)"
  by (induction metrics) (simp_all add: addMetric_nonCumulative)

lemma addLibraries_nonCumulative:
  "\<forall>ilm \<in> set ilms. \<forall>m \<in> set (Metrics ilm). nonCumulative m \<Longrightarrow>
   addLibraries toStr now ilms n a = Inr (n, a, ilms)"
  by (induction ilms) (simp_all add: addMetrics_nonCumulative)

text \<open>
  Claim C4. A sum or a histogram whose aggregation temporality is not cumulative is
  turned away whole: \<^verbatim>\<open>accumulateSum\<close>, \<^verbatim>\<open>accumulateDoubleHistogram\<close>
  and \<^verbatim>\<open>addMetric\<close> return 0 whatever the datapoints of the metric are, and
  leave the store and the metric as they were, so that every later \<^verbatim>\<open>Collect\<close>
  returns what it would have returned without the metric. The same holds for a batch made
  of such metrics only.
\<close>

theorem non_cumulative_gate:
  fixes a :: "('v, 'p) lastValueAccumulator" and metric :: "('v, 'p) Metric"
  shows "(t \<noteq> AggregationTemporalityCumulative \<and> Data metric = DataSum t im dps \<longrightarrow>
            accumulateSum toStr metric il now a = Inr (0, a, metric))
       \<and> (t \<noteq> AggregationTemporalityCumulative \<and> Data metric = DataHistogram t dps \<longrightarrow>
            accumulateDoubleHistogram toStr metric il now a = Inr (0, a, metric))
       \<and> (nonCumulative metric \<longrightarrow>
            (\<exists>a'. addMetric toStr metric il now a = Inr (0, a', metric) \<and> a' = a
               \<and> (\<forall>now'. Collect now' a' = Collect now' a)))
       \<and> ((\<forall>ilm \<in> set (LibraryMetrics rm). \<forall>m \<in> set (Metrics ilm). nonCumulative m) \<longrightarrow>
            (\<exists>a'. Accumulate toStr now rm a = Inr (0, a', rm) \<and> a' = a
               \<and> (\<forall>now'. Collect now' a' = Collect now' a)))"
  by (simp add: accumulateSum_def accumulateDoubleHistogram_def addMetric_nonCumulative
        Accumulate_def addLibraries_nonCumulative)

theorem non_cumulative_gate_witness:
  "addMetric id
     \<lparr>Name = ''m'', Description = [], Unit = [],
      Data = DataSum AggregationTemporalityDelta True
               [\<lparr>Attributes = [(''k'', ''v'')], Timestamp = 100, Payload = (10::int)\<rparr>,
                \<lparr>Attributes = [(''k'', ''w'')], Timestamp = 200, Payload = 20\<rparr>]\<rparr>
     \<lparr>LibraryName = ''lib'', LibraryVersion = []\<rparr> 1 (newAccumulator 5)
   = Inr (0, newAccumulator 5,
       \<lparr>Name = ''m'', Description = [], Unit = [],
        Data = DataSum AggregationTemporalityDelta True
               [\<lparr>Attributes = [(''k'', ''v'')], Timestamp = 100, Payload = 10\<rparr>,
                \<lparr>Attributes = [(''k'', ''w'')], Timestamp = 200, Payload = 20\<rparr>]\<rparr>)
   \<and> fst (Collect 2 (newAccumulator 5 :: (string, int) lastValueAccumulator)) = []"
  (is "addMetric id ?m ?il 1 ?a = _ \<and> _")
proof -
  have nc: "nonCumulative ?m"
    by (simp add: nonCumulative_def)
  from non_cumulative_gate [where metric = ?m and a = ?a and toStr = id and il = ?il
      and now = 1, THEN conjunct2, THEN conjunct2, THEN conjunct1, rule_format, OF nc]
  show ?thesis
    by (auto simp: Collect_def newAccumulator_def)
qed

subsection \<open>What Accumulate does to the batch\<close>

lemma sortLabels_id: "sorted (map fst (Attributes ip)) \<Longrightarrow> sortLabels ip = ip"
  by (simp add: sortLabels_def Sort_def sort_key_id_if_sorted)

lemma sortMetricLabels_id:
  "\<forall>ip \<in> set (DataPoints metric). sorted (map fst (Attributes ip)) \<Longrightarrow>
   sortMetricLabels metric = metric"
  by (cases "Data metric")
     (auto simp: sortMetricLabels_def DataPoints_def sortLabels_id map_idI)

lemma sortBatchLabels_id: "sortedLabels rm \<Longrightarrow> sortBatchLabels rm = rm"
proof -
  assume s: "sortedLabels rm"
  have "map (\<lambda>ilm. ilm\<lparr>Metrics := map sortMetricLabels (Metrics ilm)\<rparr>) (LibraryMetrics rm) =
        LibraryMetrics rm"
  proof (rule map_idI)
    fix ilm assume "ilm \<in> set (LibraryMetrics rm)"
    with s have "map sortMetricLabels (Metrics ilm) = Metrics ilm"
      by (intro map_idI sortMetricLabels_id) (auto simp: sortedLabels_def)
    then show "ilm\<lparr>Metrics := map sortMetricLabels (Metrics ilm)\<rparr> = ilm" by simp
  qed
  then show ?thesis by (simp add: sortBatchLabels_def)
qed

text \<open>
  Claim C9, as the code has it. On a store that satisfies the invariant,
  \<^verbatim>\<open>Accumulate\<close> returns and leaves the batch with the labels of every datapoint
  it has computed a signature for sorted by key, and otherwise as it was: a batch whose
  labels are sorted already is not modified; the sort keeps the labels of a datapoint as
  a multiset, its timestamp and its payload; the name, description, unit and data type of
  every metric stay, and so does the number of its datapoints.
\<close>

theorem Accumulate_batch_effect:
  fixes a :: "('v, 'p) lastValueAccumulator" and rm :: "('v, 'p) ResourceMetrics"
  assumes "storeInv a"
  shows "(\<exists>n a'. Accumulate toStr now rm a = Inr (n, a', sortBatchLabels rm))
       \<and> (sortedLabels rm \<longrightarrow> sortBatchLabels rm = rm)
       \<and> (\<forall>ip :: ('v, 'p) DataPoint.
            mset (Attributes (sortLabels ip)) = mset (Attributes ip)
            \<and> sorted (map fst (Attributes (sortLabels ip)))
            \<and> Timestamp (sortLabels ip) = Timestamp ip
            \<and> Payload (sortLabels ip) = Payload ip)
       \<and> (\<forall>metric :: ('v, 'p) Metric.
            Name (sortMetricLabels metric) = Name metric
            \<and> Description (sortMetricLabels metric) = Description metric
            \<and> Unit (sortMetricLabels metric) = Unit metric
            \<and> DataType (sortMetricLabels metric) = DataType metric
            \<and> (DataPoints (sortMetricLabels metric) = map sortLabels (DataPoints metric)
                \<or> sortMetricLabels metric = metric))"
proof (intro conjI allI impI)
  from Accumulate_inv [OF assms, of toStr now rm]
  show "\<exists>n a'. Accumulate toStr now rm a = Inr (n, a', sortBatchLabels rm)" by blast
next
  assume "sortedLabels rm"
  then show "sortBatchLabels rm = rm" by (rule sortBatchLabels_id)
next
  fix metric :: "('v, 'p) Metric"
  show "DataPoints (sortMetricLabels metric) = map sortLabels (DataPoints metric)
        \<or> sortMetricLabels metric = metric"
    by (cases "Data metric") (auto simp: sortMetricLabels_def DataPoints_def)
  show "DataType (sortMetricLabels metric) = DataType metric"
    by (cases "Data metric") (auto simp: sortMetricLabels_def DataType_def)
qed (auto simp: sortLabels_def Sort_def sortMetricLabels_def split: MetricData.splits)

theorem Accumulate_batch_effect_witness:
  "Accumulate id 1
     \<lparr>LibraryMetrics =
        [\<lparr>Library = \<lparr>LibraryName = ''lib'', LibraryVersion = []\<rparr>,
          Metrics =
            [\<lparr>Name = ''m'', Description = [], Unit = [],
              Data = DataGauge
                [\<lparr>Attributes = [(''a'', ''1''), (''b'', ''2'')], Timestamp = 100,
                  Payload = (10::int)\<rparr>]\<rparr>]\<rparr>]\<rparr>
     (newAccumulator 5) =
   Inr (1,
     Store ''Gauge*lib*m*a*1*b*2''
       \<lparr>val = \<lparr>Name = ''m'', Description = [], Unit = [],
               Data = DataGauge
                 [\<lparr>Attributes = [(''a'', ''1''), (''b'', ''2'')], Timestamp = 100,
                   Payload = 10\<rparr>]\<rparr>,
        updated = 1, instrumentationLibrary = \<lparr>LibraryName = ''lib'', LibraryVersion = []\<rparr>\<rparr>
       (newAccumulator 5),
     \<lparr>LibraryMetrics =
        [\<lparr>Library = \<lparr>LibraryName = ''lib'', LibraryVersion = []\<rparr>,
          Metrics =
            [\<lparr>Name = ''m'', Description = [], Unit = [],
              Data = DataGauge
                [\<lparr>Attributes = [(''a'', ''1''), (''b'', ''2'')], Timestamp = 100,
                  Payload = 10\<rparr>]\<rparr>]\<rparr>]\<rparr>)"
  (is "Accumulate id 1 ?rm ?a = Inr (1, ?a', ?rm)")
proof -
  have inv: "storeInv ?a" by (rule storeInv_newAccumulator)
  have srt: "sortedLabels ?rm" by (simp add: sortedLabels_def)
  from Accumulate_batch_effect [OF inv, of id 1 ?rm]
  obtain n a' where r: "Accumulate id 1 ?rm ?a = Inr (n, a', sortBatchLabels ?rm)"
    and "sortedLabels ?rm \<longrightarrow> sortBatchLabels ?rm = ?rm"
    by blast
  with srt have same: "sortBatchLabels ?rm = ?rm" by blast
  have "Accumulate id 1 ?rm ?a = Inr (1, ?a', ?rm)"
    by (simp add: accumulate_eval)
  with r same show ?thesis by simp
qed

theorem Accumulate_batch_counterexample:
  "Accumulate id 1
     \<lparr>LibraryMetrics =
        [\<lparr>Library = \<lparr>LibraryName = ''lib'', LibraryVersion = []\<rparr>,
          Metrics =
            [\<lparr>Name = ''m'', Description = [], Unit = [],
              Data = DataGauge
                [\<lparr>Attributes = [(''b'', ''2''), (''a'', ''1'')], Timestamp = 100,
                  Payload = (10::int)\<rparr>]\<rparr>]\<rparr>]\<rparr>
     (newAccumulator 5) =
   Inr (1,
     \<lparr>registeredMetrics =
        [(''Gauge*lib*m*a*1*b*2'',
          \<lparr>val = \<lparr>Name = ''m'', Description = [], Unit = [],
                  Data = DataGauge
                    [\<lparr>Attributes = [(''a'', ''1''), (''b'', ''2'')], Timestamp = 100,
                      Payload = 10\<rparr>]\<rparr>,
           updated = 1,
           instrumentationLibrary = \<lparr>LibraryName = ''lib'', LibraryVersion = []\<rparr>\<rparr>)],
      metricExpiration = 5\<rparr>,
     \<lparr>LibraryMetrics =
        [\<lparr>Library = \<lparr>LibraryName = ''lib'', LibraryVersion = []\<rparr>,
          Metrics =
            [\<lparr>Name = ''m'', Description = [], Unit = [],
              Data = DataGauge
                [\<lparr>Attributes = [(''a'', ''1''), (''b'', ''2'')], Timestamp = 100,
                  Payload = 10\<rparr>]\<rparr>]\<rparr>]\<rparr>)
   \<and> [(''a'', ''1''), (''b'', ''2'')] \<noteq> [(''b'', ''2''), (''a'', ''1'')]"
  by (simp add: accumulate_eval)

subsection \<open>Collect\<close>









subsection \<open>The count that Accumulate returns\<close>













end
